theory Spec2Isabelle
  imports Complex_Main
begin

section \<open>JavaScript values\<close>

text \<open>
  The SDK receives and produces plain JavaScript values. A number is an IEEE double:
  every finite double is a rational, and the source only compares numbers and asks
  whether they are integers, so a finite number is modelled by its rational value;
  \<open>NaN\<close> and the two infinities are kept apart, because comparisons treat them
  specially. Strings are modelled as ASCII character lists. An object is the list of
  its own enumerable properties in insertion order; a property is read by its first
  entry.
\<close>

datatype jsnum = Fin rat | NaN | PosInf | NegInf

datatype jsval =
    JUndefined
  | JNull
  | JBool bool
  | JNum jsnum
  | JStr string
  | JArr "jsval list"
  | JObj "(string \<times> jsval) list"

text \<open>
  Converting a value to a string, as the \<^verbatim>\<open>Error\<close> constructor and
  \<^verbatim>\<open>URLSearchParams.set\<close> do. A primitive always converts. An object converts through its
  \<^verbatim>\<open>toString\<close>: a property of that name on the value itself is data and cannot be called,
  and then the conversion throws a \<^verbatim>\<open>TypeError\<close>; otherwise the inherited method answers.
  An array joins the conversions of its elements, so it converts when all of them do.
  A string converts to itself; the text that any other value converts to is kept
  symbolic.
\<close>

datatype js_string = Str string | ToString jsval

fun converts :: "jsval \<Rightarrow> bool" where
  "converts (JArr xs) = (\<forall>x \<in> set xs. converts x)"
| "converts (JObj kvs) = (map_of kvs ''toString'' = None)"
| "converts v = True"

definition converted :: "jsval \<Rightarrow> js_string" where
  "converted v = (case v of JStr s \<Rightarrow> Str s | _ \<Rightarrow> ToString v)"

text \<open>\<open>None\<close> stands for the \<^verbatim>\<open>TypeError\<close> of a conversion that throws.\<close>

definition String_of :: "jsval \<Rightarrow> js_string option" where
  "String_of v = (if converts v then Some (converted v) else None)"

text \<open>\<^verbatim>\<open>typeof v\<close>\<close>

definition typeof :: "jsval \<Rightarrow> string" where
  "typeof v = (case v of
      JUndefined \<Rightarrow> ''undefined''
    | JNull \<Rightarrow> ''object''
    | JBool _ \<Rightarrow> ''boolean''
    | JNum _ \<Rightarrow> ''number''
    | JStr _ \<Rightarrow> ''string''
    | JArr _ \<Rightarrow> ''object''
    | JObj _ \<Rightarrow> ''object'')"

text \<open>Truthiness, as used by \<^verbatim>\<open>!v\<close>, \<^verbatim>\<open>a || b\<close>, \<^verbatim>\<open>a && b\<close> and \<^verbatim>\<open>if (v)\<close>.\<close>

definition truthy :: "jsval \<Rightarrow> bool" where
  "truthy v = (case v of
      JUndefined \<Rightarrow> False
    | JNull \<Rightarrow> False
    | JBool b \<Rightarrow> b
    | JNum n \<Rightarrow> (case n of Fin q \<Rightarrow> q \<noteq> 0 | NaN \<Rightarrow> False | _ \<Rightarrow> True)
    | JStr s \<Rightarrow> s \<noteq> []
    | JArr _ \<Rightarrow> True
    | JObj _ \<Rightarrow> True)"

definition isArray :: "jsval \<Rightarrow> bool" where
  "isArray v = (case v of JArr _ \<Rightarrow> True | _ \<Rightarrow> False)"

text \<open>Decimal rendering of an index or status code inside a template literal.\<close>

definition digit_char :: "nat \<Rightarrow> char" where
  "digit_char d = ''0123456789'' ! d"

fun decimal :: "nat \<Rightarrow> string" where
  "decimal n = (if n < 10 then [digit_char n] else decimal (n div 10) @ [digit_char (n mod 10)])"

declare decimal.simps [simp del]

text \<open>
  \<^verbatim>\<open>v.k\<close> for a fixed property name \<open>k\<close>. The source reads properties only of values
  it has checked to be objects or arrays, and destructures the constructor argument; none
  of the names it reads is an array index.
\<close>

definition get_prop :: "jsval \<Rightarrow> string \<Rightarrow> jsval" where
  "get_prop v k = (case v of
      JObj kvs \<Rightarrow> (case map_of kvs k of Some x \<Rightarrow> x | None \<Rightarrow> JUndefined)
    | JArr xs \<Rightarrow> (if k = ''length'' then JNum (Fin (of_nat (length xs))) else JUndefined)
    | _ \<Rightarrow> JUndefined)"

text \<open>Writing a property in an object literal: an existing key keeps its place and
  takes the new value, a new key is appended.\<close>

fun set_prop :: "string \<Rightarrow> jsval \<Rightarrow> (string \<times> jsval) list \<Rightarrow> (string \<times> jsval) list" where
  "set_prop k v [] = [(k, v)]"
| "set_prop k v (p # ps) = (if fst p = k then (k, v) # ps else p # set_prop k v ps)"

fun indexed :: "nat \<Rightarrow> jsval list \<Rightarrow> (string \<times> jsval) list" where
  "indexed i [] = []"
| "indexed i (x # xs) = (decimal i, x) # indexed (Suc i) xs"

text \<open>\<^verbatim>\<open>Object.entries(v)\<close>: the own enumerable string-keyed properties.\<close>

definition Object_entries :: "jsval \<Rightarrow> (string \<times> jsval) list" where
  "Object_entries v = (case v of
      JObj kvs \<Rightarrow> kvs
    | JArr xs \<Rightarrow> indexed 0 xs
    | JStr s \<Rightarrow> indexed 0 (map (\<lambda>c. JStr [c]) s)
    | _ \<Rightarrow> [])"

section \<open>Errors\<close>

text \<open>
  \<open>Error msg\<close> is the plain \<^verbatim>\<open>new Error(msg)\<close> thrown by local validation and by
  the constructor. \<open>TypeError\<close> is a \<^verbatim>\<open>TypeError\<close> raised by the runtime itself.
  \<open>PrintApiError status errorType message details\<close> is the class of that name: the
  error type is stored as passed, the message is the string that the \<^verbatim>\<open>Error\<close>
  constructor converted its argument to, the details default to the empty object.
\<close>

datatype js_error =
    Error string
  | TypeError
  | PrintApiError nat jsval js_string "(string \<times> jsval) list"

text \<open>Statements run in order; the first one that throws ends the function.\<close>

fun first_error :: "(js_error + unit) list \<Rightarrow> js_error + unit" where
  "first_error [] = Inr ()"
| "first_error (Inl e # cs) = Inl e"
| "first_error (Inr u # cs) = first_error cs"

section \<open>validate.js\<close>

definition VALID_STATES :: "string list" where
  "VALID_STATES =
    [''AL'', ''AZ'', ''AR'', ''CA'', ''CO'', ''CT'', ''DC'', ''DE'', ''FL'', ''GA'',
     ''ID'', ''IL'', ''IN'', ''IA'', ''KS'', ''KY'', ''LA'', ''ME'', ''MD'', ''MA'',
     ''MI'', ''MN'', ''MS'', ''MO'', ''MT'', ''NE'', ''NV'', ''NH'', ''NJ'', ''NM'',
     ''NY'', ''NC'', ''ND'', ''OH'', ''OK'', ''OR'', ''PA'', ''RI'', ''SC'', ''SD'',
     ''TN'', ''TX'', ''UT'', ''VT'', ''VA'', ''WA'', ''WV'', ''WI'', ''WY'']"

definition VALID_PRODUCT_TYPES :: "string list" where
  "VALID_PRODUCT_TYPES = [''Newsletter'', ''Calendar'', ''Flyer'', ''LFP'']"

text \<open>\<^verbatim>\<open>Set.prototype.has\<close> on a set of strings: only a string can be a member.\<close>

definition has :: "string list \<Rightarrow> jsval \<Rightarrow> bool" where
  "has S v = (case v of JStr s \<Rightarrow> s \<in> set S | _ \<Rightarrow> False)"

text \<open>\<^verbatim>\<open>String.prototype.toUpperCase\<close> on ASCII text.\<close>

definition upper_char :: "char \<Rightarrow> char" where
  "upper_char c =
     (case map_of (zip ''abcdefghijklmnopqrstuvwxyz'' ''ABCDEFGHIJKLMNOPQRSTUVWXYZ'') c of
        Some u \<Rightarrow> u | None \<Rightarrow> c)"

definition toUpperCase :: "string \<Rightarrow> string" where
  "toUpperCase s = map upper_char s"

text \<open>\<^verbatim>\<open>String.prototype.trim\<close>: tab, line feed, vertical tab, form feed, carriage
  return and space are the ASCII white space.\<close>

definition is_space :: "char \<Rightarrow> bool" where
  "is_space c = (c \<in> set [CHR 0x09, CHR 0x0A, CHR 0x0B, CHR 0x0C, CHR 0x0D, CHR 0x20])"

definition trim :: "string \<Rightarrow> string" where
  "trim s = rev (dropWhile is_space (rev (dropWhile is_space s)))"

definition isEmail :: "jsval \<Rightarrow> bool" where
  "isEmail v = (case v of JStr s \<Rightarrow> CHR ''@'' \<in> set s \<and> CHR ''.'' \<in> set s | _ \<Rightarrow> False)"

definition isHttpsUrl :: "jsval \<Rightarrow> bool" where
  "isHttpsUrl v = (case v of JStr s \<Rightarrow> take 8 s = ''https://'' | _ \<Rightarrow> False)"

definition isState :: "jsval \<Rightarrow> bool" where
  "isState v = (case v of JStr s \<Rightarrow> toUpperCase s \<in> set VALID_STATES | _ \<Rightarrow> False)"

definition requireString :: "jsval \<Rightarrow> string \<Rightarrow> js_error + unit" where
  "requireString val label =
     (case val of
        JStr s \<Rightarrow> if trim s = [] then Inl (Error (label @ '' must be a non-empty string''))
                  else Inr ()
      | _ \<Rightarrow> Inl (Error (label @ '' must be a non-empty string'')))"

text \<open>\<^verbatim>\<open>Number.isInteger\<close>\<close>

definition Number_isInteger :: "jsval \<Rightarrow> bool" where
  "Number_isInteger v = (case v of JNum (Fin q) \<Rightarrow> q = of_int \<lfloor>q\<rfloor> | _ \<Rightarrow> False)"

text \<open>The comparisons \<^verbatim>\<open>x < c\<close>, \<^verbatim>\<open>x > c\<close> and \<^verbatim>\<open>x <= c\<close> of a number with a finite
  constant; every comparison with \<open>NaN\<close> is false.\<close>

definition num_less :: "jsnum \<Rightarrow> rat \<Rightarrow> bool" where
  "num_less x c = (case x of Fin q \<Rightarrow> q < c | NegInf \<Rightarrow> True | _ \<Rightarrow> False)"

definition num_greater :: "jsnum \<Rightarrow> rat \<Rightarrow> bool" where
  "num_greater x c = (case x of Fin q \<Rightarrow> c < q | PosInf \<Rightarrow> True | _ \<Rightarrow> False)"

definition num_le :: "jsnum \<Rightarrow> rat \<Rightarrow> bool" where
  "num_le x c = (case x of Fin q \<Rightarrow> q \<le> c | NegInf \<Rightarrow> True | _ \<Rightarrow> False)"

text \<open>\<^verbatim>\<open>!Number.isInteger(item.quantity) || item.quantity < 1 || item.quantity > 1000\<close>\<close>

definition quantity_rejected :: "jsval \<Rightarrow> bool" where
  "quantity_rejected v =
     (\<not> Number_isInteger v \<or>
      (case v of JNum x \<Rightarrow> num_less x 1 \<or> num_greater x 1000 | _ \<Rightarrow> False))"

text \<open>\<^verbatim>\<open>typeof v !== 'number' || v <= 0\<close>\<close>

definition edge_rejected :: "jsval \<Rightarrow> bool" where
  "edge_rejected v = (case v of JNum x \<Rightarrow> num_le x 0 | _ \<Rightarrow> True)"

text \<open>The inner loop over \<^verbatim>\<open>item.files\<close>, from index \<open>j\<close> on.\<close>

fun files_loop :: "string \<Rightarrow> nat \<Rightarrow> jsval list \<Rightarrow> js_error + unit" where
  "files_loop prefix j [] = Inr ()"
| "files_loop prefix j (f # fs) =
     (if \<not> isHttpsUrl f
      then Inl (Error (prefix @ ''.files['' @ decimal j @ ''] must be an HTTPS URL''))
      else files_loop prefix (Suc j) fs)"

text \<open>One pass through the body of the loop over the items, for the item at index \<open>i\<close>.\<close>

definition validateItem :: "bool \<Rightarrow> nat \<Rightarrow> jsval \<Rightarrow> js_error + unit" where
  "validateItem requireFiles i item =
     (let prefix = ''orderItems['' @ decimal i @ '']'' in
      if \<not> truthy item \<or> typeof item \<noteq> ''object'' \<or> isArray item
      then Inl (Error (prefix @ '' must be an object''))
      else first_error
        [requireString (get_prop item ''sku'') (prefix @ ''.sku''),
         if \<not> has VALID_PRODUCT_TYPES (get_prop item ''productType'')
         then Inl (Error (prefix @
                ''.productType must be one of: Newsletter, Calendar, Flyer, LFP''))
         else Inr (),
         if quantity_rejected (get_prop item ''quantity'')
         then Inl (Error (prefix @ ''.quantity must be an integer between 1 and 1000''))
         else Inr (),
         if get_prop item ''sku'' = JStr ''LFP_CS''
         then first_error
           [if edge_rejected (get_prop item ''longEdge'')
            then Inl (Error (prefix @
                   ''.longEdge is required for LFP_CS and must be a positive number''))
            else Inr (),
            if edge_rejected (get_prop item ''shortEdge'')
            then Inl (Error (prefix @
                   ''.shortEdge is required for LFP_CS and must be a positive number''))
            else Inr ()]
         else Inr (),
         if requireFiles
         then (case get_prop item ''files'' of
                 JArr fs \<Rightarrow>
                   if fs = []
                   then Inl (Error (prefix @ ''.files must be a non-empty array of HTTPS URLs''))
                   else files_loop prefix 0 fs
               | _ \<Rightarrow> Inl (Error (prefix @ ''.files must be a non-empty array of HTTPS URLs'')))
         else Inr ()])"

fun items_loop :: "bool \<Rightarrow> nat \<Rightarrow> jsval list \<Rightarrow> js_error + unit" where
  "items_loop requireFiles i [] = Inr ()"
| "items_loop requireFiles i (item # items) =
     (case validateItem requireFiles i item of
        Inl e \<Rightarrow> Inl e
      | Inr u \<Rightarrow> items_loop requireFiles (Suc i) items)"

definition validateOrderItems :: "jsval \<Rightarrow> bool \<Rightarrow> js_error + unit" where
  "validateOrderItems items requireFiles =
     (case items of
        JArr xs \<Rightarrow>
          if xs = [] then Inl (Error ''orderItems must be a non-empty array'')
          else items_loop requireFiles 0 xs
      | _ \<Rightarrow> Inl (Error ''orderItems must be a non-empty array''))"

text \<open>The loop over an array of e-mail addresses, from index \<open>i\<close> on.\<close>

fun emails_loop :: "string \<Rightarrow> nat \<Rightarrow> jsval list \<Rightarrow> js_error + unit" where
  "emails_loop field i [] = Inr ()"
| "emails_loop field i (e # es) =
     (if \<not> isEmail e
      then Inl (Error (field @ ''['' @ decimal i @ ''] must be a valid email address''))
      else emails_loop field (Suc i) es)"

definition validateCustomer :: "jsval \<Rightarrow> string \<Rightarrow> js_error + unit" where
  "validateCustomer customer label =
     (if \<not> truthy customer \<or> typeof customer \<noteq> ''object''
      then Inl (Error (label @ '' is required''))
      else first_error
        [requireString (get_prop customer ''firstName'') (label @ ''.firstName''),
         requireString (get_prop customer ''lastName'') (label @ ''.lastName''),
         requireString (get_prop customer ''address1'') (label @ ''.address1''),
         requireString (get_prop customer ''city'') (label @ ''.city''),
         requireString (get_prop customer ''zip'') (label @ ''.zip''),
         requireString (get_prop customer ''phone'') (label @ ''.phone''),
         (case get_prop customer ''phone'' of
            JStr p \<Rightarrow>
              if length p \<le> 9
              then Inl (Error (label @ ''.phone must be a string with more than 9 characters''))
              else Inr ()
          | _ \<Rightarrow> Inl (Error (label @ ''.phone must be a string with more than 9 characters''))),
         if \<not> isEmail (get_prop customer ''email'')
         then Inl (Error (label @ ''.email must be a valid email address''))
         else Inr (),
         if \<not> isState (get_prop customer ''state'')
         then Inl (Error (label @ ''.state must be a 2-letter US state code (lower 48 + DC)''))
         else Inr (),
         if label = ''shippingCustomer''
         then (case get_prop customer ''shipmentTrackingEmail'' of
                 JArr es \<Rightarrow>
                   if length es < 1 \<or> length es > 3
                   then Inl (Error (label @
                          ''.shipmentTrackingEmail must be an array of 1-3 email addresses''))
                   else emails_loop (label @ ''.shipmentTrackingEmail'') 0 es
               | _ \<Rightarrow> Inl (Error (label @
                          ''.shipmentTrackingEmail must be an array of 1-3 email addresses'')))
         else Inr (),
         if label = ''billingCustomer'' \<and>
            get_prop customer ''billingInvoiceEmails'' \<noteq> JNull \<and>
            get_prop customer ''billingInvoiceEmails'' \<noteq> JUndefined
         then (case get_prop customer ''billingInvoiceEmails'' of
                 JArr es \<Rightarrow> emails_loop (label @ ''.billingInvoiceEmails'') 0 es
               | _ \<Rightarrow> Inl (Error (label @
                          ''.billingInvoiceEmails must be an array of email addresses'')))
         else Inr ()])"

definition validateCreateOrderData :: "jsval \<Rightarrow> js_error + unit" where
  "validateCreateOrderData orderData =
     (if \<not> truthy orderData \<or> typeof orderData \<noteq> ''object''
      then Inl (Error ''orderData must be an object'')
      else first_error
        [requireString (get_prop orderData ''orderDatetime'') ''orderDatetime'',
         requireString (get_prop orderData ''sourceReferenceOrderNumber'')
           ''sourceReferenceOrderNumber'',
         validateOrderItems (get_prop orderData ''orderItems'') True,
         validateCustomer (get_prop orderData ''shippingCustomer'') ''shippingCustomer'',
         if get_prop orderData ''sourceSystemBilling'' = JBool False
         then (if \<not> truthy (get_prop orderData ''billingCustomer'')
               then Inl (Error ''billingCustomer is required when sourceSystemBilling is false'')
               else validateCustomer (get_prop orderData ''billingCustomer'') ''billingCustomer'')
         else Inr ()])"

definition validateOrderNumber :: "jsval \<Rightarrow> js_error + unit" where
  "validateOrderNumber orderNumber = requireString orderNumber ''orderNumber''"

section \<open>PrintApiClient\<close>

text \<open>The four private fields of the client. The test-mode field holds whatever value
  the caller configured; only its truthiness is ever used.\<close>

record client =
  apiKey :: string
  accountId :: string
  baseUrl :: string
  testMode :: jsval

text \<open>\<^verbatim>\<open>baseUrl.replace(/\/+$/, '')\<close>\<close>

definition strip_trailing_slashes :: "string \<Rightarrow> string" where
  "strip_trailing_slashes s = rev (dropWhile (\<lambda>c. c = CHR ''/'') (rev s))"

text \<open>
  The constructor destructures its argument, which defaults to the empty object when
  it is absent; destructuring \<^verbatim>\<open>null\<close> is a runtime error. A parameter default applies
  to a property that is \<^verbatim>\<open>undefined\<close>. Calling \<^verbatim>\<open>replace\<close> on a base address that is not a
  string is a runtime error as well.
\<close>

definition constructor :: "jsval \<Rightarrow> js_error + client" where
  "constructor config =
     (if config = JNull then Inl TypeError
      else
        let cfg = (if config = JUndefined then JObj [] else config);
            baseUrl_arg = (if get_prop cfg ''baseUrl'' = JUndefined
                           then JStr ''https://printapi.net/api/v1''
                           else get_prop cfg ''baseUrl'');
            testMode_arg = (if get_prop cfg ''testMode'' = JUndefined
                            then JBool False
                            else get_prop cfg ''testMode'')
        in case get_prop cfg ''apiKey'' of
             JStr key \<Rightarrow>
               if trim key = [] then Inl (Error ''apiKey is required'')
               else (case get_prop cfg ''accountId'' of
                       JStr acct \<Rightarrow>
                         if trim acct = [] then Inl (Error ''accountId is required'')
                         else (case baseUrl_arg of
                                 JStr url \<Rightarrow>
                                   Inr \<lparr>apiKey = key, accountId = acct,
                                        baseUrl = strip_trailing_slashes url,
                                        testMode = testMode_arg\<rparr>
                               | _ \<Rightarrow> Inl TypeError)
                     | _ \<Rightarrow> Inl (Error ''accountId is required''))
           | _ \<Rightarrow> Inl (Error ''apiKey is required''))"

subsection \<open>The HTTP exchange\<close>

text \<open>
  The address built by \<^verbatim>\<open>new URL\<close>: the concatenated base address and path, and the
  search parameters set on it. The request handed to \<^verbatim>\<open>fetch\<close> carries the body as the
  value given to \<^verbatim>\<open>JSON.stringify\<close>, or nothing when no body is sent.
\<close>

record url =
  href :: string
  searchParams :: "(string \<times> js_string) list"

record request =
  http_method :: string  \<comment> \<open>the \<^verbatim>\<open>method\<close> option of \<^verbatim>\<open>fetch\<close>\<close>
  target :: url
  headers :: "(string \<times> string) list"
  body :: "jsval option"

text \<open>What \<^verbatim>\<open>fetch\<close> gives back: it throws an error with a message, or it delivers
  a response whose \<^verbatim>\<open>json()\<close> either yields the parsed body or throws.\<close>

record response =
  ok :: bool
  status :: nat
  json :: "jsval option"

datatype fetch_result = Throws string | Responds response

text \<open>
  The platform the client runs on: \<^verbatim>\<open>fetch\<close>, whose answer may depend on the exchanges
  that went before, and the set of strings that \<^verbatim>\<open>new URL\<close> accepts (it raises a
  \<^verbatim>\<open>TypeError\<close> on any other).
\<close>

record platform =
  fetch :: "request list \<Rightarrow> request \<Rightarrow> fetch_result"
  url_parses :: "string \<Rightarrow> bool"

text \<open>The state a method runs in: the client object it is called on and the requests
  handed to \<^verbatim>\<open>fetch\<close> so far, oldest first.\<close>

record world =
  this :: client
  calls :: "request list"

text \<open>\<^verbatim>\<open>url.searchParams.set(key, value)\<close>\<close>

fun searchParams_set ::
  "string \<Rightarrow> js_string \<Rightarrow> (string \<times> js_string) list \<Rightarrow> (string \<times> js_string) list" where
  "searchParams_set k v [] = [(k, v)]"
| "searchParams_set k v (p # ps) =
     (if fst p = k then (k, v) # filter (\<lambda>q. fst q \<noteq> k) ps else p # searchParams_set k v ps)"

text \<open>The loop over the entries of the query; it ends with a \<^verbatim>\<open>TypeError\<close> at the first
  value that does not convert to a string.\<close>

fun query_loop ::
  "(string \<times> jsval) list \<Rightarrow> (string \<times> js_string) list \<Rightarrow>
   (string \<times> js_string) list option" where
  "query_loop [] ps = Some ps"
| "query_loop ((key, v) # es) ps =
     (if v \<noteq> JNull \<and> v \<noteq> JUndefined
      then (case String_of v of
              None \<Rightarrow> None
            | Some s \<Rightarrow> query_loop es (searchParams_set key s ps))
      else query_loop es ps)"

definition search_params :: "jsval \<Rightarrow> (string \<times> js_string) list option" where
  "search_params query =
     (if truthy query then query_loop (Object_entries query) [] else Some [])"

text \<open>\<^verbatim>\<open>const { error: errorType, message, ...rest } = data\<close>: a runtime error on
  \<^verbatim>\<open>null\<close> and \<^verbatim>\<open>undefined\<close>.\<close>

definition destructure_error ::
  "jsval \<Rightarrow> (jsval \<times> jsval \<times> (string \<times> jsval) list) option" where
  "destructure_error data =
     (if data = JNull \<or> data = JUndefined then None
      else Some (get_prop data ''error'', get_prop data ''message'',
                 filter (\<lambda>p. fst p \<noteq> ''error'' \<and> fst p \<noteq> ''message'') (Object_entries data)))"

text \<open>The request that \<^verbatim>\<open>#request\<close> assembles before it calls \<^verbatim>\<open>fetch\<close>, once the
  query entries that are neither \<^verbatim>\<open>null\<close> nor \<^verbatim>\<open>undefined\<close> have become the search
  parameters \<open>params\<close>: the credential header is always set, the content type and the
  body only for a truthy body.\<close>

definition build_request ::
  "client \<Rightarrow> string \<Rightarrow> string \<Rightarrow> (string \<times> js_string) list \<Rightarrow> jsval \<Rightarrow> request" where
  "build_request c meth path params payload =
     (let u = \<lparr>href = baseUrl c @ path, searchParams = params\<rparr>
      in if truthy payload
         then \<lparr>http_method = meth, target = u,
               headers = [(''X-API-Key'', apiKey c), (''Content-Type'', ''application/json'')],
               body = Some payload\<rparr>
         else \<lparr>http_method = meth, target = u,
               headers = [(''X-API-Key'', apiKey c)],
               body = None\<rparr>)"

text \<open>What \<^verbatim>\<open>#request\<close> makes of the answer of \<^verbatim>\<open>fetch\<close>. Constructing the
  \<^verbatim>\<open>PrintApiError\<close> of a response that is not \<^verbatim>\<open>ok\<close> converts the message to a string,
  which may itself throw.\<close>

definition classify :: "fetch_result \<Rightarrow> js_error + jsval" where
  "classify answer =
     (case answer of
        Throws m \<Rightarrow>
          Inl (PrintApiError 0 (JStr ''NetworkError'') (Str (''Request failed: '' @ m)) [])
      | Responds r \<Rightarrow>
          (case json r of
             None \<Rightarrow>
               Inl (PrintApiError (status r) (JStr ''ParseError'')
                      (Str (''Failed to parse response (HTTP '' @ decimal (status r) @ '')''))
                      [])
           | Some data \<Rightarrow>
               if \<not> ok r
               then (case destructure_error data of
                       None \<Rightarrow> Inl TypeError
                     | Some (errorType, message, rest) \<Rightarrow>
                         (case String_of (if truthy message then message
                                          else JStr ''Unknown error'') of
                            None \<Rightarrow> Inl TypeError
                          | Some text \<Rightarrow>
                              Inl (PrintApiError (status r)
                                     (if truthy errorType then errorType
                                      else JStr (''HTTP '' @ decimal (status r)))
                                     text rest)))
               else Inr data))"

definition request ::
  "platform \<Rightarrow> string \<Rightarrow> string \<Rightarrow> jsval \<Rightarrow> jsval \<Rightarrow> world \<Rightarrow> (js_error + jsval) \<times> world" where
  "request env meth path query payload w =
     (if \<not> url_parses env (baseUrl (this w) @ path) then (Inl TypeError, w)
      else
        case search_params query of
          None \<Rightarrow> (Inl TypeError, w)
        | Some params \<Rightarrow>
            let req = build_request (this w) meth path params payload
            in (classify (fetch env (calls w) req), w\<lparr>calls := calls w @ [req]\<rparr>))"

subsection \<open>The five operations\<close>

definition getCatalog :: "platform \<Rightarrow> world \<Rightarrow> (js_error + jsval) \<times> world" where
  "getCatalog env w = request env ''GET'' ''/catalog'' JUndefined JUndefined w"

definition checkPricing :: "platform \<Rightarrow> jsval \<Rightarrow> world \<Rightarrow> (js_error + jsval) \<times> world" where
  "checkPricing env orderItems w =
     (case validateOrderItems orderItems False of
        Inl e \<Rightarrow> (Inl e, w)
      | Inr u \<Rightarrow>
          request env ''POST'' ''/pricing'' JUndefined
            (JObj [(''accountId'', JStr (accountId (this w))), (''orderItems'', orderItems)]) w)"

text \<open>
  The body of an order: the caller's properties are spread first, then the account
  identifier is written, then \<^verbatim>\<open>testOrder: true\<close> is spread in when the test-mode field is
  truthy (spreading a falsy value adds nothing).
\<close>

definition order_body :: "client \<Rightarrow> jsval \<Rightarrow> jsval" where
  "order_body c orderData =
     (let spread = set_prop ''accountId'' (JStr (accountId c)) (Object_entries orderData)
      in JObj (if truthy (testMode c) then set_prop ''testOrder'' (JBool True) spread
               else spread))"

definition createOrder :: "platform \<Rightarrow> jsval \<Rightarrow> world \<Rightarrow> (js_error + jsval) \<times> world" where
  "createOrder env orderData w =
     (case validateCreateOrderData orderData of
        Inl e \<Rightarrow> (Inl e, w)
      | Inr u \<Rightarrow> request env ''POST'' ''/order'' JUndefined (order_body (this w) orderData) w)"

definition getOrderStatus :: "platform \<Rightarrow> jsval \<Rightarrow> world \<Rightarrow> (js_error + jsval) \<times> world" where
  "getOrderStatus env orderNumber w =
     (case validateOrderNumber orderNumber of
        Inl e \<Rightarrow> (Inl e, w)
      | Inr u \<Rightarrow>
          request env ''GET'' ''/orderstatus''
            (JObj [(''accountId'', JStr (accountId (this w))), (''orderNumber'', orderNumber)])
            JUndefined w)"

definition cancelOrder :: "platform \<Rightarrow> jsval \<Rightarrow> world \<Rightarrow> (js_error + jsval) \<times> world" where
  "cancelOrder env orderNumber w =
     (case validateOrderNumber orderNumber of
        Inl e \<Rightarrow> (Inl e, w)
      | Inr u \<Rightarrow>
          request env ''POST'' ''/cancelorder'' JUndefined
            (JObj [(''accountId'', JStr (accountId (this w))), (''orderNumber'', orderNumber)]) w)"

text \<open>A call of one of the five operations, and a caller that makes a sequence of them
  on the same client.\<close>

datatype operation =
    GetCatalog
  | CheckPricing jsval
  | CreateOrder jsval
  | GetOrderStatus jsval
  | CancelOrder jsval

fun perform :: "platform \<Rightarrow> operation \<Rightarrow> world \<Rightarrow> (js_error + jsval) \<times> world" where
  "perform env GetCatalog w = getCatalog env w"
| "perform env (CheckPricing orderItems) w = checkPricing env orderItems w"
| "perform env (CreateOrder orderData) w = createOrder env orderData w"
| "perform env (GetOrderStatus orderNumber) w = getOrderStatus env orderNumber w"
| "perform env (CancelOrder orderNumber) w = cancelOrder env orderNumber w"

fun perform_all :: "platform \<Rightarrow> operation list \<Rightarrow> world \<Rightarrow> (js_error + jsval) list \<times> world" where
  "perform_all env [] w = ([], w)"
| "perform_all env (x # xs) w =
     (let (r, w') = perform env x w; (rs, w'') = perform_all env xs w' in (r # rs, w''))"

section \<open>Vocabulary of the properties\<close>

text \<open>
  The 48 contiguous states and the District of Columbia, written down independently of
  the table in the source: the fifty state codes in the alphabetical order of the state
  names, without Alaska and Hawaii, and \<open>DC\<close>.
\<close>

definition us_states :: "string list" where
  "us_states =
    [''AL'', ''AK'', ''AZ'', ''AR'', ''CA'', ''CO'', ''CT'', ''DE'', ''FL'', ''GA'',
     ''HI'', ''ID'', ''IL'', ''IN'', ''IA'', ''KS'', ''KY'', ''LA'', ''ME'', ''MD'',
     ''MA'', ''MI'', ''MN'', ''MS'', ''MO'', ''MT'', ''NE'', ''NV'', ''NH'', ''NJ'',
     ''NM'', ''NY'', ''NC'', ''ND'', ''OH'', ''OK'', ''OR'', ''PA'', ''RI'', ''SC'',
     ''SD'', ''TN'', ''TX'', ''UT'', ''VT'', ''VA'', ''WA'', ''WV'', ''WI'', ''WY'']"

definition contiguous_states_and_DC :: "string list" where
  "contiguous_states_and_DC =
     filter (\<lambda>s. s \<noteq> ''AK'' \<and> s \<noteq> ''HI'') us_states @ [''DC'']"

text \<open>Two characters are the same letter in either case; two strings are equal up to
  letter case.\<close>

definition same_letter :: "char \<Rightarrow> char \<Rightarrow> bool" where
  "same_letter x y =
     (x = y \<or>
      (x, y) \<in> set (zip ''abcdefghijklmnopqrstuvwxyz'' ''ABCDEFGHIJKLMNOPQRSTUVWXYZ'') \<or>
      (y, x) \<in> set (zip ''abcdefghijklmnopqrstuvwxyz'' ''ABCDEFGHIJKLMNOPQRSTUVWXYZ''))"

definition equal_ignoring_case :: "string \<Rightarrow> string \<Rightarrow> bool" where
  "equal_ignoring_case s t = list_all2 same_letter s t"

text \<open>An item without its dimensional fields, and without its file references.\<close>

definition without_dimensions :: "jsval \<Rightarrow> jsval" where
  "without_dimensions item =
     (case item of
        JObj kvs \<Rightarrow> JObj (filter (\<lambda>p. fst p \<noteq> ''longEdge'' \<and> fst p \<noteq> ''shortEdge'') kvs)
      | _ \<Rightarrow> item)"

definition without_files :: "jsval \<Rightarrow> jsval" where
  "without_files item =
     (case item of
        JObj kvs \<Rightarrow> JObj (filter (\<lambda>p. fst p \<noteq> ''files'') kvs)
      | _ \<Rightarrow> item)"

text \<open>
  A request uses the configuration \<open>c\<close>: it carries the credential of \<open>c\<close>, its
  address starts with the base address of \<open>c\<close>, a body or an order-status query names
  the account of \<open>c\<close>, and an order is marked as a test when the test mode of \<open>c\<close> is on.
\<close>

definition uses_configuration :: "client \<Rightarrow> request \<Rightarrow> bool" where
  "uses_configuration c req =
     (let path = drop (length (baseUrl c)) (href (target req)) in
      map_of (headers req) ''X-API-Key'' = Some (apiKey c) \<and>
      take (length (baseUrl c)) (href (target req)) = baseUrl c \<and>
      (case body req of
         Some b \<Rightarrow> get_prop b ''accountId'' = JStr (accountId c)
       | None \<Rightarrow> path = ''/catalog'' \<or>
                 map_of (searchParams (target req)) ''accountId'' = Some (Str (accountId c))) \<and>
      (if path = ''/order'' \<and> truthy (testMode c)
       then (case body req of Some b \<Rightarrow> get_prop b ''testOrder'' = JBool True | None \<Rightarrow> False)
       else True))"

text \<open>A validation step throws nothing but a plain \<^verbatim>\<open>Error\<close>.\<close>

definition local_only :: "js_error + 'a \<Rightarrow> bool" where
  "local_only c = (case c of Inl (Error m) \<Rightarrow> True | Inl _ \<Rightarrow> False | Inr _ \<Rightarrow> True)"

section \<open>Fixtures of the test suite\<close>

text \<open>\<^verbatim>\<open>mockResponse(body, { status, ok })\<close> and a \<^verbatim>\<open>fetch\<close> that always gives the same
  answer, on a platform where every address parses.\<close>

definition mockResponse :: "jsval \<Rightarrow> nat \<Rightarrow> bool \<Rightarrow> response" where
  "mockResponse b st k = \<lparr>ok = k, status = st, json = Some b\<rparr>"

definition mock_platform :: "fetch_result \<Rightarrow> platform" where
  "mock_platform answer = \<lparr>fetch = (\<lambda>earlier req. answer), url_parses = (\<lambda>s. True)\<rparr>"

text \<open>\<^verbatim>\<open>realOrderPayload(overrides)\<close>\<close>

definition realOrderPayload :: "(string \<times> jsval) list \<Rightarrow> jsval" where
  "realOrderPayload overrides =
     JObj (foldl (\<lambda>acc p. set_prop (fst p) (snd p) acc)
       [(''orderDatetime'', JStr ''2024-01-15T10:30:00Z''),
        (''sourceReferenceOrderNumber'', JStr ''YOURORDERNUMBER1234''),
        (''orderItems'', JArr
           [JObj [(''sku'', JStr ''TAB_2D_16P''),
                  (''productType'', JStr ''Newsletter''),
                  (''staple'', JBool True),
                  (''quantity'', JNum (Fin 100)),
                  (''files'', JArr [JStr ''https://example.com/test-newsletter.pdf'']),
                  (''notes'', JStr ''Test order - Newsletter'')]]),
        (''shippingCustomer'', JObj
           [(''firstName'', JStr ''John''),
            (''lastName'', JStr ''Doe''),
            (''company'', JStr ''Acme Corp''),
            (''phone'', JStr ''555-123-4567''),
            (''email'', JStr ''john.doe@acme.com''),
            (''shipmentTrackingEmail'',
               JArr [JStr ''john.doe@acme.com'', JStr ''logistics@acme.com'']),
            (''address1'', JStr ''123 Main St''),
            (''address2'', JStr ''Suite 100''),
            (''city'', JStr ''Anytown''),
            (''state'', JStr ''CA''),
            (''zip'', JStr ''12345'')]),
        (''sourceSystemBilling'', JBool True)]
       overrides)"

text \<open>The shipping customer of that payload, living in another state:
  \<^verbatim>\<open>{ ...realOrderPayload().shippingCustomer, state }\<close>\<close>

definition shippingCustomer_in :: "string \<Rightarrow> jsval" where
  "shippingCustomer_in st =
     JObj (set_prop ''state'' (JStr st)
             (Object_entries (get_prop (realOrderPayload []) ''shippingCustomer'')))"

text \<open>The client of the tests, \<^verbatim>\<open>new PrintApiClient({ apiKey: 'key', accountId: '123' })\<close>,
  before any request was made.\<close>

definition test_client :: client where
  "test_client = \<lparr>apiKey = ''key'', accountId = ''123'',
                  baseUrl = ''https://printapi.net/api/v1'', testMode = JBool False\<rparr>"

definition fresh :: "client \<Rightarrow> world" where
  "fresh c = \<lparr>this = c, calls = []\<rparr>"

section \<open>Basic facts\<close>

lemma map_of_set_prop: "map_of (set_prop k v kvs) = (map_of kvs)(k \<mapsto> v)"
  by (induction kvs) (auto simp: fun_eq_iff)

lemma get_prop_set_prop_same: "get_prop (JObj (set_prop k v kvs)) k = v"
  by (simp add: get_prop_def map_of_set_prop)

lemma get_prop_set_prop_other:
  "k' \<noteq> k \<Longrightarrow> get_prop (JObj (set_prop k v kvs)) k' = get_prop (JObj kvs) k'"
  by (simp add: get_prop_def map_of_set_prop)

lemma search_params_absent [simp]: "search_params JUndefined = Some []"
  by (simp add: search_params_def truthy_def)

lemma request_this: "this (snd (request env meth path query payload w)) = this w"
  by (simp add: request_def Let_def split: option.splits)

lemma request_calls:
  "calls (snd (request env meth path query payload w)) =
     (if url_parses env (baseUrl (this w) @ path)
      then (case search_params query of
              None \<Rightarrow> calls w
            | Some params \<Rightarrow> calls w @ [build_request (this w) meth path params payload])
      else calls w)"
  by (simp add: request_def Let_def split: option.splits)

lemma request_result:
  "fst (request env meth path query payload w) =
     (if url_parses env (baseUrl (this w) @ path)
      then (case search_params query of
              None \<Rightarrow> Inl TypeError
            | Some params \<Rightarrow>
                classify (fetch env (calls w) (build_request (this w) meth path params payload)))
      else Inl TypeError)"
  by (simp add: request_def Let_def split: option.splits)

lemma build_request_fields:
  "truthy payload \<Longrightarrow> body (build_request c meth path params payload) = Some payload"
  "\<not> truthy payload \<Longrightarrow> body (build_request c meth path params payload) = None"
  "http_method (build_request c meth path params payload) = meth"
  "href (target (build_request c meth path params payload)) = baseUrl c @ path"
  "map_of (headers (build_request c meth path params payload)) ''X-API-Key'' = Some (apiKey c)"
  by (simp_all add: build_request_def Let_def)

lemma constructor_accountId:
  "constructor config = Inr c \<Longrightarrow> get_prop config ''accountId'' = JStr (accountId c)"
  by (auto simp: constructor_def Let_def get_prop_def split: if_splits jsval.splits option.splits)

lemma constructor_testMode:
  "constructor config = Inr c \<Longrightarrow>
     testMode c = (if get_prop config ''testMode'' = JUndefined then JBool False
                   else get_prop config ''testMode'')"
  by (auto simp: constructor_def Let_def get_prop_def split: if_splits jsval.splits option.splits)

lemma validated_order_is_object:
  "validateCreateOrderData orderData = Inr () \<Longrightarrow> \<exists>kvs. orderData = JObj kvs"
  by (cases orderData)
     (auto simp: validateCreateOrderData_def truthy_def typeof_def get_prop_def requireString_def
           split: if_splits)

lemma createOrder_calls:
  "calls (snd (createOrder env orderData w)) = calls w \<or>
   (\<exists>kvs. orderData = JObj kvs \<and>
      calls (snd (createOrder env orderData w)) =
        calls w @ [build_request (this w) ''POST'' ''/order'' []
                     (order_body (this w) orderData)])"
  using validated_order_is_object[of orderData]
  by (auto simp: createOrder_def request_calls split: sum.splits)

lemma order_body_truthy: "truthy (order_body c orderData)"
  by (simp add: order_body_def truthy_def Let_def)

lemma order_body_accountId: "get_prop (order_body c orderData) ''accountId'' = JStr (accountId c)"
  by (simp add: order_body_def Let_def get_prop_set_prop_same get_prop_set_prop_other)

lemma order_body_testOrder:
  "get_prop (order_body c (JObj kvs)) ''testOrder'' =
     (if truthy (testMode c) then JBool True else get_prop (JObj kvs) ''testOrder'')"
  by (simp add: order_body_def Let_def Object_entries_def get_prop_set_prop_same
        get_prop_set_prop_other)

lemma createOrder_sample_calls:
  assumes "validateCreateOrderData orderData = Inr ()"
  shows "calls (snd (createOrder (mock_platform answer) orderData (fresh c))) =
           [] @ [build_request c ''POST'' ''/order'' [] (order_body c orderData)]"
  using assms by (simp add: createOrder_def request_calls mock_platform_def fresh_def)

section \<open>The account identifier and the test-order flag of an order\<close>

text \<open>
  C1. A client is constructed from a configuration whose account identifier is \<open>A\<close>.
  Whatever order data the caller passes, and whatever \<open>accountId\<close> it contains, the
  request that \<open>createOrder\<close> hands to \<open>fetch\<close> is a POST to the order path whose
  body has \<open>accountId\<close> equal to \<open>A\<close>.
\<close>

theorem createOrder_accountId_overrides:
  assumes "constructor config = Inr c"
    and "get_prop config ''accountId'' = JStr A"
    and "createOrder env orderData \<lparr>this = c, calls = cs\<rparr> = (r, w')"
    and "calls w' = cs @ [req]"
  shows "http_method req = ''POST'' \<and> href (target req) = baseUrl c @ ''/order'' \<and>
         (\<exists>b. body req = Some b \<and> get_prop b ''accountId'' = JStr A)"
proof -
  have A: "accountId c = A"
    using constructor_accountId[OF assms(1)] assms(2) by simp
  have "calls w' = calls (snd (createOrder env orderData \<lparr>this = c, calls = cs\<rparr>))"
    using assms(3) by simp
  with createOrder_calls[of env orderData "\<lparr>this = c, calls = cs\<rparr>"] assms(4)
  have req: "req = build_request c ''POST'' ''/order'' [] (order_body c orderData)"
    by auto
  show ?thesis
    using A by (simp add: req build_request_fields order_body_truthy order_body_accountId)
qed

theorem createOrder_accountId_overrides_witness:
  "get_prop (realOrderPayload [(''accountId'', JStr ''wrong-id'')]) ''accountId'' = JStr ''wrong-id'' \<and>
   (\<exists>req b.
      calls (snd (createOrder (mock_platform (Responds (mockResponse (JObj []) 200 True)))
                    (realOrderPayload [(''accountId'', JStr ''wrong-id'')])
                    (fresh (test_client\<lparr>accountId := ''correct-id''\<rparr>)))) = [req] \<and>
      http_method req = ''POST'' \<and>
      href (target req) = ''https://printapi.net/api/v1/order'' \<and>
      body req = Some b \<and> get_prop b ''accountId'' = JStr ''correct-id'')"
proof -
  let ?config = "JObj [(''apiKey'', JStr ''key''), (''accountId'', JStr ''correct-id'')]"
  let ?c = "test_client\<lparr>accountId := ''correct-id''\<rparr>"
  let ?od = "realOrderPayload [(''accountId'', JStr ''wrong-id'')]"
  let ?env = "mock_platform (Responds (mockResponse (JObj []) 200 True))"
  let ?req = "build_request ?c ''POST'' ''/order'' [] (order_body ?c ?od)"
  have made: "constructor ?config = Inr ?c"
    by code_simp
  have acct: "get_prop ?config ''accountId'' = JStr ''correct-id''"
    by code_simp
  have wrong: "get_prop ?od ''accountId'' = JStr ''wrong-id''"
    by code_simp
  have valid: "validateCreateOrderData ?od = Inr ()"
    by code_simp
  have base: "baseUrl ?c @ ''/order'' = ''https://printapi.net/api/v1/order''"
    by (simp add: test_client_def)
  obtain r w' where run: "createOrder ?env ?od \<lparr>this = ?c, calls = []\<rparr> = (r, w')"
    by fastforce
  have sent: "calls w' = [] @ [?req]"
    using createOrder_sample_calls[OF valid, of "Responds (mockResponse (JObj []) 200 True)" ?c] run
    by (simp add: fresh_def)
  from createOrder_accountId_overrides[OF made acct run sent] base
  have "http_method ?req = ''POST'' \<and> href (target ?req) = ''https://printapi.net/api/v1/order'' \<and>
        (\<exists>b. body ?req = Some b \<and> get_prop b ''accountId'' = JStr ''correct-id'')"
    by simp
  with sent run wrong show ?thesis
    by (auto simp: fresh_def)
qed

text \<open>
  C2. A client is constructed from a configuration; its test-mode field is the configured
  value, \<open>false\<close> when none is given. The request that \<open>createOrder\<close> hands to \<open>fetch\<close>
  has a body whose \<open>testOrder\<close> is \<open>true\<close> when the test mode is on, whatever the
  caller's order data say; when the test mode is off the body has the caller's own
  \<open>testOrder\<close>, absent if the caller gave none.
\<close>

theorem createOrder_testMode_forces_testOrder:
  assumes "constructor config = Inr c"
    and "createOrder env orderData \<lparr>this = c, calls = cs\<rparr> = (r, w')"
    and "calls w' = cs @ [req]"
  shows "testMode c = (if get_prop config ''testMode'' = JUndefined then JBool False
                       else get_prop config ''testMode'') \<and>
         (\<exists>b. body req = Some b \<and>
              get_prop b ''testOrder'' =
                (if truthy (testMode c) then JBool True else get_prop orderData ''testOrder''))"
proof -
  have "calls w' = calls (snd (createOrder env orderData \<lparr>this = c, calls = cs\<rparr>))"
    using assms(2) by simp
  with createOrder_calls[of env orderData "\<lparr>this = c, calls = cs\<rparr>"] assms(3)
  obtain kvs where obj: "orderData = JObj kvs"
    and req: "req = build_request c ''POST'' ''/order'' [] (order_body c orderData)"
    by auto
  show ?thesis
    using constructor_testMode[OF assms(1)]
    by (simp add: req obj build_request_fields order_body_truthy order_body_testOrder)
qed

theorem createOrder_testMode_forces_testOrder_witness:
  "get_prop (realOrderPayload [(''testOrder'', JBool False)]) ''testOrder'' = JBool False \<and>
   (\<exists>req b.
      calls (snd (createOrder (mock_platform (Responds (mockResponse (JObj []) 200 True)))
                    (realOrderPayload [(''testOrder'', JBool False)])
                    (fresh (test_client\<lparr>testMode := JBool True\<rparr>)))) = [req] \<and>
      body req = Some b \<and> get_prop b ''testOrder'' = JBool True) \<and>
   (\<exists>req b.
      calls (snd (createOrder (mock_platform (Responds (mockResponse (JObj []) 200 True)))
                    (realOrderPayload [])
                    (fresh test_client))) = [req] \<and>
      body req = Some b \<and> get_prop b ''testOrder'' = JUndefined)"
proof -
  let ?answer = "Responds (mockResponse (JObj []) 200 True)"
  let ?env = "mock_platform ?answer"
  let ?on = "test_client\<lparr>testMode := JBool True\<rparr>"
  let ?od = "realOrderPayload [(''testOrder'', JBool False)]"
  let ?plain = "realOrderPayload []"
  let ?req1 = "build_request ?on ''POST'' ''/order'' [] (order_body ?on ?od)"
  let ?req2 = "build_request test_client ''POST'' ''/order'' []
                 (order_body test_client ?plain)"
  have made1: "constructor (JObj [(''apiKey'', JStr ''key''), (''accountId'', JStr ''123''),
                                 (''testMode'', JBool True)]) = Inr ?on"
    by code_simp
  have made2: "constructor (JObj [(''apiKey'', JStr ''key''), (''accountId'', JStr ''123'')])
                 = Inr test_client"
    by code_simp
  have explicit: "get_prop ?od ''testOrder'' = JBool False"
    by code_simp
  have absent: "get_prop ?plain ''testOrder'' = JUndefined"
    by code_simp
  have valid1: "validateCreateOrderData ?od = Inr ()"
    by code_simp
  have valid2: "validateCreateOrderData ?plain = Inr ()"
    by code_simp
  obtain r1 w1 where run1: "createOrder ?env ?od \<lparr>this = ?on, calls = []\<rparr> = (r1, w1)"
    by fastforce
  obtain r2 w2 where run2: "createOrder ?env ?plain \<lparr>this = test_client, calls = []\<rparr> = (r2, w2)"
    by fastforce
  have sent1: "calls w1 = [] @ [?req1]"
    using createOrder_sample_calls[OF valid1, of ?answer ?on] run1 by (simp add: fresh_def)
  have sent2: "calls w2 = [] @ [?req2]"
    using createOrder_sample_calls[OF valid2, of ?answer test_client] run2
    by (simp add: fresh_def)
  have on: "truthy (testMode ?on)" and off: "\<not> truthy (testMode test_client)"
    by (simp_all add: truthy_def test_client_def)
  from createOrder_testMode_forces_testOrder[OF made1 run1 sent1] on explicit
  have first: "\<exists>b. body ?req1 = Some b \<and> get_prop b ''testOrder'' = JBool True"
    by simp
  from createOrder_testMode_forces_testOrder[OF made2 run2 sent2] off absent
  have second: "\<exists>b. body ?req2 = Some b \<and> get_prop b ''testOrder'' = JUndefined"
    by simp
  from first second sent1 sent2 run1 run2 explicit show ?thesis
    by (auto simp: fresh_def)
qed

section \<open>Validation throws plain errors only\<close>

lemma local_only_simps [simp]: "local_only (Inl (Error m))" "local_only (Inr u)"
  by (simp_all add: local_only_def)

lemma local_onlyD: "local_only c \<Longrightarrow> c = Inl e \<Longrightarrow> \<exists>msg. e = Error msg"
  by (cases e) (simp_all add: local_only_def)

lemma local_only_first_error: "list_all local_only cs \<Longrightarrow> local_only (first_error cs)"
  by (induction cs rule: first_error.induct) simp_all

lemma local_only_requireString [simp]: "local_only (requireString v l)"
  by (simp add: requireString_def split: jsval.splits)

lemma local_only_files_loop [simp]: "local_only (files_loop prefix j fs)"
  by (induction prefix j fs rule: files_loop.induct) simp_all

lemma local_only_emails_loop [simp]: "local_only (emails_loop field i es)"
  by (induction field i es rule: emails_loop.induct) simp_all

lemma list_all_ConsI: "P x \<Longrightarrow> list_all P xs \<Longrightarrow> list_all P (x # xs)"
  by simp

lemma list_all_NilI: "list_all P []"
  by simp

lemma local_only_if: "local_only a \<Longrightarrow> local_only b \<Longrightarrow> local_only (if c then a else b)"
  by simp

lemma local_only_case:
  "\<lbrakk>local_only a; local_only b; \<And>x. local_only (c x); \<And>x. local_only (d x);
    \<And>x. local_only (e x); \<And>x. local_only (f x); \<And>x. local_only (g x)\<rbrakk>
   \<Longrightarrow> local_only (case v of JUndefined \<Rightarrow> a | JNull \<Rightarrow> b | JBool x \<Rightarrow> c x | JNum x \<Rightarrow> d x
                      | JStr x \<Rightarrow> e x | JArr x \<Rightarrow> f x | JObj x \<Rightarrow> g x)"
  by (cases v) simp_all

lemma local_only_validateItem [simp]: "local_only (validateItem rf i item)"
  unfolding validateItem_def Let_def
  by (intro local_only_if local_only_first_error local_only_case list_all_ConsI list_all_NilI)
     simp_all

lemma local_only_items_loop [simp]: "local_only (items_loop rf i items)"
proof (induction rf i items rule: items_loop.induct)
  case (2 rf i item items)
  then show ?case
    using local_only_validateItem[of rf i item]
    by (cases "validateItem rf i item") simp_all
qed simp

lemma local_only_validateOrderItems [simp]: "local_only (validateOrderItems items rf)"
  unfolding validateOrderItems_def
  by (intro local_only_if local_only_case) simp_all

lemma local_only_validateCustomer [simp]: "local_only (validateCustomer customer label)"
  unfolding validateCustomer_def
  by (intro local_only_if local_only_first_error local_only_case list_all_ConsI list_all_NilI)
     simp_all

lemma local_only_validateCreateOrderData [simp]: "local_only (validateCreateOrderData orderData)"
  unfolding validateCreateOrderData_def
  by (intro local_only_if local_only_first_error local_only_case list_all_ConsI list_all_NilI)
     simp_all

lemma local_only_validateOrderNumber [simp]: "local_only (validateOrderNumber orderNumber)"
  unfolding validateOrderNumber_def by simp

lemma guarded_shape:
  assumes "local_only v"
  shows "(\<exists>msg. (case v of Inl e \<Rightarrow> (Inl e, w) | Inr u \<Rightarrow> request env meth path query payload w)
            = (Inl (Error msg), w)) \<or>
         (\<exists>meth' path' query' payload'.
            (case v of Inl e \<Rightarrow> (Inl e, w) | Inr u \<Rightarrow> request env meth path query payload w)
            = request env meth' path' query' payload' w)"
proof (cases v)
  case (Inl e)
  with local_onlyD[OF assms] show ?thesis by auto
next
  case (Inr u)
  then show ?thesis by simp blast
qed

lemma perform_shape:
  "(\<exists>msg. perform env operation w = (Inl (Error msg), w)) \<or>
   (\<exists>meth path query payload. perform env operation w = request env meth path query payload w)"
proof (cases operation)
  case GetCatalog
  then show ?thesis by (simp add: getCatalog_def) blast
next
  case (CheckPricing x)
  show ?thesis
    unfolding CheckPricing perform.simps checkPricing_def by (intro guarded_shape) simp
next
  case (CreateOrder x)
  show ?thesis
    unfolding CreateOrder perform.simps createOrder_def by (intro guarded_shape) simp
next
  case (GetOrderStatus x)
  show ?thesis
    unfolding GetOrderStatus perform.simps getOrderStatus_def by (intro guarded_shape) simp
next
  case (CancelOrder x)
  show ?thesis
    unfolding CancelOrder perform.simps cancelOrder_def by (intro guarded_shape) simp
qed

lemma perform_exchange:
  assumes "perform env operation w = (r, w')" and "calls w' = calls w @ [req]"
  shows "r = classify (fetch env (calls w) req)"
proof -
  from perform_shape[of env operation w] assms
  obtain meth path query payload
    where rq: "perform env operation w = request env meth path query payload w"
    by auto
  have c: "calls w' = calls (snd (request env meth path query payload w))"
    and f: "r = fst (request env meth path query payload w)"
    using assms(1) rq by simp_all
  from c assms(2) obtain params where "url_parses env (baseUrl (this w) @ path)"
    and "search_params query = Some params"
    and "req = build_request (this w) meth path params payload"
    by (auto simp: request_calls split: if_splits option.splits)
  then show ?thesis using f by (simp add: request_result)
qed

lemma perform_this: "this (snd (perform env operation w)) = this w"
  using perform_shape[of env operation w] by (auto simp: request_this)


lemma map_of_filter_key:
  "map_of (filter (\<lambda>p. Q (fst p)) kvs) k = (if Q k then map_of kvs k else None)"
  by (induction kvs) auto

lemma getCatalog_sample_calls:
  "calls (snd (perform (mock_platform answer) GetCatalog (fresh c))) =
     calls (fresh c) @ [build_request c ''GET'' ''/catalog'' [] JUndefined]"
  by (simp add: getCatalog_def request_calls mock_platform_def fresh_def)

lemma mock_fetch: "fetch (mock_platform answer) earlier req = answer"
  by (simp add: mock_platform_def)

lemma decimal_samples:
  "decimal 0 = ''0''" "decimal 1 = ''1''" "decimal 409 = ''409''" "decimal 500 = ''500''"
  "decimal 502 = ''502''"
  by (simp_all add: decimal.simps digit_char_def)

section \<open>Failures of the exchange\<close>

text \<open>
  C3. An operation hands a request to \<open>fetch\<close>. When \<open>fetch\<close> throws an error with
  message \<open>m\<close>, the operation rejects with a \<open>PrintApiError\<close> of status 0, error type
  \<open>NetworkError\<close> and message \<open>Request failed: m\<close>. When \<open>fetch\<close> delivers a
  response whose body does not parse as JSON, the operation rejects with a
  \<open>PrintApiError\<close> whose status is the status of the response and whose error type is
  \<open>ParseError\<close>.
\<close>

theorem transport_and_parse_failures:
  assumes "perform env operation w = (r, w')" and "calls w' = calls w @ [req]"
  shows "(fetch env (calls w) req = Throws m \<longrightarrow>
            r = Inl (PrintApiError 0 (JStr ''NetworkError'') (Str (''Request failed: '' @ m)) [])) \<and>
         (fetch env (calls w) req = Responds resp \<and> json resp = None \<longrightarrow>
            r = Inl (PrintApiError (status resp) (JStr ''ParseError'')
                       (Str (''Failed to parse response (HTTP '' @ decimal (status resp) @ '')''))
                       []))"
  using perform_exchange[OF assms] by (simp add: classify_def)

theorem transport_and_parse_failures_witness:
  "fst (perform (mock_platform (Throws ''ECONNREFUSED'')) GetCatalog (fresh test_client)) =
     Inl (PrintApiError 0 (JStr ''NetworkError'') (Str ''Request failed: ECONNREFUSED'') []) \<and>
   fst (perform (mock_platform (Responds \<lparr>ok = False, status = 502, json = None\<rparr>))
          GetCatalog (fresh test_client)) =
     Inl (PrintApiError 502 (JStr ''ParseError'') (Str ''Failed to parse response (HTTP 502)'') [])"
proof -
  let ?down = "mock_platform (Throws ''ECONNREFUSED'')"
  let ?html = "mock_platform (Responds \<lparr>ok = False, status = 502, json = None\<rparr>)"
  let ?req = "build_request test_client ''GET'' ''/catalog'' [] JUndefined"
  obtain r1 w1 where run1: "perform ?down GetCatalog (fresh test_client) = (r1, w1)"
    by fastforce
  obtain r2 w2 where run2: "perform ?html GetCatalog (fresh test_client) = (r2, w2)"
    by fastforce
  have sent1: "calls w1 = calls (fresh test_client) @ [?req]"
    using getCatalog_sample_calls[of "Throws ''ECONNREFUSED''" test_client] run1 by simp
  have sent2: "calls w2 = calls (fresh test_client) @ [?req]"
    using getCatalog_sample_calls[of "Responds \<lparr>ok = False, status = 502, json = None\<rparr>"
            test_client] run2 by simp
  from transport_and_parse_failures[OF run1 sent1, of "''ECONNREFUSED''"]
  have first: "r1 = Inl (PrintApiError 0 (JStr ''NetworkError'')
                           (Str ''Request failed: ECONNREFUSED'') [])"
    by (simp add: mock_fetch)
  from transport_and_parse_failures[OF run2 sent2,
         of _ "\<lparr>ok = False, status = 502, json = None\<rparr>"]
  have second: "r2 = Inl (PrintApiError 502 (JStr ''ParseError'')
                            (Str ''Failed to parse response (HTTP 502)'') [])"
    by (simp add: mock_fetch decimal_samples)
  from first second run1 run2 show ?thesis by simp
qed

text \<open>
  C4, as stated, fails. An error body whose label is present but empty is not reported
  under that label but under \<open>HTTP 500\<close>; and an error body that is the JSON value
  \<open>null\<close> does not lead to a \<open>PrintApiError\<close> at all.
\<close>

theorem error_label_counterexample:
  "fst (perform (mock_platform (Responds (mockResponse
          (JObj [(''error'', JStr []), (''message'', JStr ''boom'')]) 500 False)))
        GetCatalog (fresh test_client)) =
     Inl (PrintApiError 500 (JStr ''HTTP 500'') (Str ''boom'') []) \<and>
   fst (perform (mock_platform (Responds (mockResponse JNull 500 False)))
        GetCatalog (fresh test_client)) = Inl TypeError"
  by (simp add: getCatalog_def request_result mock_platform_def fresh_def classify_def
        mockResponse_def destructure_error_def get_prop_def truthy_def String_of_def
        converted_def Object_entries_def decimal_samples)

text \<open>
  C4, amended. An operation hands a request to \<open>fetch\<close> and receives a response that is
  not \<open>ok\<close> and whose body parses as a JSON value other than \<open>null\<close>. The operation
  rejects with a \<open>PrintApiError\<close> whose status is the status of the response; whose error
  type is the \<open>error\<close> field of the body when that is truthy, and \<open>HTTP\<close> followed
  by the status otherwise; whose message is the \<open>message\<close> field converted to a string
  when that is truthy, and \<open>Unknown error\<close> otherwise; and whose details are the
  properties of the body without \<open>error\<close> and \<open>message\<close>, each with its value
  unchanged. This is so whenever the \<open>message\<close> field can be converted to a string,
  as every string, number and boolean can, and every object and array in which no
  object to be converted has a \<open>toString\<close> property of its own.
\<close>

theorem remote_error_normalized:
  assumes "perform env operation w = (r, w')" and "calls w' = calls w @ [req]"
    and "fetch env (calls w) req = Responds resp" and "\<not> ok resp"
    and "json resp = Some data" and "data \<noteq> JNull" and "data \<noteq> JUndefined"
    and "converts (get_prop data ''message'')"
  shows "\<exists>details.
           r = Inl (PrintApiError (status resp)
                      (if truthy (get_prop data ''error'') then get_prop data ''error''
                       else JStr (''HTTP '' @ decimal (status resp)))
                      (converted (if truthy (get_prop data ''message'') then get_prop data ''message''
                                  else JStr ''Unknown error''))
                      details) \<and>
           details = filter (\<lambda>p. fst p \<noteq> ''error'' \<and> fst p \<noteq> ''message'') (Object_entries data) \<and>
           (\<forall>k. get_prop (JObj details) k =
                  (if k = ''error'' \<or> k = ''message'' then JUndefined
                   else get_prop (JObj (Object_entries data)) k))"
proof -
  have "get_prop (JObj (filter (\<lambda>p. fst p \<noteq> ''error'' \<and> fst p \<noteq> ''message'') kvs)) k =
          (if k = ''error'' \<or> k = ''message'' then JUndefined else get_prop (JObj kvs) k)"
    for kvs :: "(string \<times> jsval) list" and k
    using map_of_filter_key[of "\<lambda>k. k \<noteq> ''error'' \<and> k \<noteq> ''message''" kvs k]
    by (simp add: get_prop_def)
  then show ?thesis
    using perform_exchange[OF assms(1,2)] assms(3-8)
    by (simp add: classify_def destructure_error_def String_of_def)
qed

theorem remote_error_normalized_witness:
  "fst (perform (mock_platform (Responds (mockResponse
          (JObj [(''error'', JStr ''Conflict''), (''message'', JStr ''Duplicate''),
                 (''existingOrderNumber'', JStr ''ATEST-0000001'')]) 409 False)))
        GetCatalog (fresh test_client)) =
     Inl (PrintApiError 409 (JStr ''Conflict'') (Str ''Duplicate'')
            [(''existingOrderNumber'', JStr ''ATEST-0000001'')])"
proof -
  let ?data = "JObj [(''error'', JStr ''Conflict''), (''message'', JStr ''Duplicate''),
                     (''existingOrderNumber'', JStr ''ATEST-0000001'')]"
  let ?resp = "mockResponse ?data 409 False"
  let ?env = "mock_platform (Responds ?resp)"
  let ?req = "build_request test_client ''GET'' ''/catalog'' [] JUndefined"
  obtain r w' where run: "perform ?env GetCatalog (fresh test_client) = (r, w')"
    by fastforce
  have sent: "calls w' = calls (fresh test_client) @ [?req]"
    using getCatalog_sample_calls[of "Responds ?resp" test_client] run by simp
  have answer: "fetch ?env (calls (fresh test_client)) ?req = Responds ?resp"
    by (simp add: mock_fetch)
  have bad: "\<not> ok ?resp" and parsed: "json ?resp = Some ?data"
    by (simp_all add: mockResponse_def)
  from remote_error_normalized[OF run sent answer bad parsed]
  have "r = Inl (PrintApiError 409 (JStr ''Conflict'') (Str ''Duplicate'')
                   [(''existingOrderNumber'', JStr ''ATEST-0000001'')])"
    by (simp add: mockResponse_def get_prop_def truthy_def converted_def Object_entries_def)
  with run show ?thesis by simp
qed

text \<open>A message that cannot be converted to a string: the constructor of the error
  throws, and the operation rejects with that \<^verbatim>\<open>TypeError\<close>.\<close>

lemma unconvertible_message_throws:
  "fst (perform (mock_platform (Responds (mockResponse
          (JObj [(''error'', JStr ''Bad Request''),
                 (''message'', JObj [(''toString'', JStr ''x'')])]) 400 False)))
        GetCatalog (fresh test_client)) = Inl TypeError"
  by (simp add: getCatalog_def request_result mock_platform_def fresh_def classify_def
        mockResponse_def destructure_error_def get_prop_def truthy_def String_of_def)

section \<open>Facts about the loop over the items\<close>

lemma first_error_Inr: "first_error cs = Inr u \<Longrightarrow> c \<in> set cs \<Longrightarrow> c = Inr ()"
  by (induction cs rule: first_error.induct) auto

lemma first_error_all_Inr: "list_all (\<lambda>c. c = Inr ()) cs \<Longrightarrow> first_error cs = Inr ()"
  by (induction cs rule: first_error.induct) auto

lemma quantity_rejected_iff:
  "quantity_rejected v \<longleftrightarrow> \<not> (\<exists>k::int. v = JNum (Fin (of_int k)) \<and> 1 \<le> k \<and> k \<le> 1000)"
proof (cases v)
  case (JNum x)
  show ?thesis
  proof (cases x)
    case (Fin q)
    show ?thesis
    proof
      assume rej: "quantity_rejected v"
      show "\<not> (\<exists>k::int. v = JNum (Fin (of_int k)) \<and> 1 \<le> k \<and> k \<le> 1000)"
      proof
        assume "\<exists>k::int. v = JNum (Fin (of_int k)) \<and> 1 \<le> k \<and> k \<le> 1000"
        then obtain k :: int where "q = of_int k" "1 \<le> k" "k \<le> 1000"
          using JNum Fin by auto
        then show False
          using rej JNum Fin
          by (simp add: quantity_rejected_def Number_isInteger_def num_less_def num_greater_def)
      qed
    next
      assume none: "\<not> (\<exists>k::int. v = JNum (Fin (of_int k)) \<and> 1 \<le> k \<and> k \<le> 1000)"
      show "quantity_rejected v"
      proof (rule ccontr)
        assume "\<not> quantity_rejected v"
        then have int: "q = of_int \<lfloor>q\<rfloor>" and lo: "1 \<le> q" and hi: "q \<le> 1000"
          using JNum Fin
          by (simp_all add: quantity_rejected_def Number_isInteger_def num_less_def
                num_greater_def)
        from lo hi have "1 \<le> \<lfloor>q\<rfloor>" "\<lfloor>q\<rfloor> \<le> 1000"
          by (simp_all add: le_floor_iff floor_le_iff)
        with int none JNum Fin show False by auto
      qed
    qed
  qed (simp_all add: JNum quantity_rejected_def Number_isInteger_def)
qed (simp_all add: quantity_rejected_def Number_isInteger_def)

lemma first_error_Cons_Inr:
  "first_error (c # cs) = Inr u \<longleftrightarrow> c = Inr () \<and> first_error cs = Inr ()"
  by (cases c) auto

lemma validateItem_bad_quantity:
  assumes "quantity_rejected (get_prop item ''quantity'')"
  shows "validateItem rf i item \<noteq> Inr ()"
  using assms by (simp add: validateItem_def Let_def first_error_Cons_Inr)

lemma items_loop_bad_quantity:
  "i < length items \<Longrightarrow> quantity_rejected (get_prop (items ! i) ''quantity'') \<Longrightarrow>
     items_loop rf j items \<noteq> Inr ()"
proof (induction items arbitrary: i j)
  case Nil
  then show ?case by simp
next
  case (Cons x xs)
  show ?case
  proof (cases i)
    case 0
    with Cons.prems validateItem_bad_quantity[of x rf j] show ?thesis
      by (cases "validateItem rf j x") auto
  next
    case (Suc n)
    with Cons.prems Cons.IH[of n "Suc j"] show ?thesis
      by (cases "validateItem rf j x") auto
  qed
qed

lemma validateOrderItems_bad_quantity:
  assumes "i < length items" and "quantity_rejected (get_prop (items ! i) ''quantity'')"
  shows "\<exists>msg. validateOrderItems (JArr items) rf = Inl (Error msg)"
proof -
  have "validateOrderItems (JArr items) rf \<noteq> Inr ()"
    using items_loop_bad_quantity[OF assms] by (simp add: validateOrderItems_def)
  then show ?thesis
    using local_onlyD[OF local_only_validateOrderItems, of "JArr items" rf]
    by (cases "validateOrderItems (JArr items) rf") auto
qed

lemma validateCreateOrderData_bad_items:
  assumes "validateOrderItems (get_prop orderData ''orderItems'') True \<noteq> Inr ()"
  shows "\<exists>msg. validateCreateOrderData orderData = Inl (Error msg)"
proof -
  have "validateCreateOrderData orderData \<noteq> Inr ()"
    using assms by (simp add: validateCreateOrderData_def first_error_Cons_Inr)
  then show ?thesis
    using local_onlyD[OF local_only_validateCreateOrderData, of orderData]
    by (cases "validateCreateOrderData orderData") auto
qed

lemma items_loop_append:
  "items_loop rf j (xs @ ys) =
     (case items_loop rf j xs of Inl e \<Rightarrow> Inl e | Inr u \<Rightarrow> items_loop rf (j + length xs) ys)"
  by (induction xs arbitrary: j) (auto split: sum.splits)

lemma requireString_passes: "trim s \<noteq> [] \<Longrightarrow> requireString (JStr s) l = Inr ()"
  by (simp add: requireString_def)

lemma validateItem_quantity_message:
  assumes "quantity_rejected (get_prop (JObj kvs) ''quantity'')"
    and "get_prop (JObj kvs) ''sku'' = JStr s" and "trim s \<noteq> []"
    and "has VALID_PRODUCT_TYPES (get_prop (JObj kvs) ''productType'')"
  shows "validateItem rf i (JObj kvs) =
           Inl (Error (''orderItems['' @ decimal i @ ''].quantity must be an integer between 1 and 1000''))"
  using assms
  by (simp add: validateItem_def Let_def truthy_def typeof_def isArray_def requireString_passes)

lemma items_loop_quantity_message:
  assumes "i < length items" and "items_loop rf 0 (take i items) = Inr ()"
    and "items ! i = JObj kvs"
    and "quantity_rejected (get_prop (items ! i) ''quantity'')"
    and "get_prop (items ! i) ''sku'' = JStr s" and "trim s \<noteq> []"
    and "has VALID_PRODUCT_TYPES (get_prop (items ! i) ''productType'')"
  shows "validateOrderItems (JArr items) rf =
           Inl (Error (''orderItems['' @ decimal i @ ''].quantity must be an integer between 1 and 1000''))"
proof -
  have split: "items = take i items @ (items ! i # drop (Suc i) items)"
    using assms(1) by (simp add: id_take_nth_drop)
  have "items_loop rf 0 items =
          items_loop rf (0 + length (take i items)) (items ! i # drop (Suc i) items)"
    using items_loop_append[of rf 0 "take i items" "items ! i # drop (Suc i) items"]
      assms(2) split by simp
  also have "\<dots> = Inl (Error (''orderItems['' @ decimal i @ ''].quantity must be an integer between 1 and 1000''))"
    using assms(1) validateItem_quantity_message[of kvs s rf i] assms(3-7)
    by simp
  finally show ?thesis
    using assms(1) by (auto simp: validateOrderItems_def)
qed


lemma checkPricing_rejected:
  "validateOrderItems orderItems False = Inl e \<Longrightarrow> checkPricing env orderItems w = (Inl e, w)"
  by (simp add: checkPricing_def)

lemma createOrder_rejected:
  "validateCreateOrderData orderData = Inl e \<Longrightarrow> createOrder env orderData w = (Inl e, w)"
  by (simp add: createOrder_def)

lemma validateCreateOrderData_quantity_message:
  assumes "get_prop orderData ''orderItems'' = JArr items"
    and "get_prop orderData ''orderDatetime'' = JStr d" and "trim d \<noteq> []"
    and "get_prop orderData ''sourceReferenceOrderNumber'' = JStr n" and "trim n \<noteq> []"
    and "validateOrderItems (JArr items) True = Inl e"
  shows "validateCreateOrderData orderData = Inl e"
proof -
  have "truthy orderData \<and> typeof orderData = ''object''"
    using assms(1) by (cases orderData) (auto simp: get_prop_def truthy_def typeof_def split: if_splits)
  then show ?thesis
    using assms by (simp add: validateCreateOrderData_def requireString_passes)
qed

section \<open>Quantities and dimensions of order items\<close>

text \<open>
  C5, as stated, fails. An item with quantity 0 and an empty sku is rejected, but the
  message names the sku, which is checked first, and not the quantity.
\<close>

theorem quantity_message_counterexample:
  "fst (checkPricing (mock_platform (Throws []))
          (JArr [JObj [(''sku'', JStr []), (''productType'', JStr ''Newsletter''),
                       (''quantity'', JNum (Fin 0))]])
          (fresh test_client)) =
     Inl (Error ''orderItems[0].sku must be a non-empty string'')"
  by code_simp

text \<open>
  C5, amended. The items contain, at index \<open>i\<close>, an item whose quantity is not an
  integer from 1 to 1000. Then \<open>checkPricing\<close> on these items, and \<open>createOrder\<close> on
  order data with these items, reject with a plain \<open>Error\<close> and leave the list of
  requests as it was. The message is the one that names index \<open>i\<close> and the quantity when
  nothing is found wrong before: all items before \<open>i\<close> pass, the item is an object whose
  sku is a non-blank string and whose product type is known, and, for \<open>createOrder\<close>,
  the date and the reference number of the order are non-blank strings.
\<close>

theorem invalid_quantity_rejected_locally:
  assumes "i < length items"
    and "\<not> (\<exists>k::int. get_prop (items ! i) ''quantity'' = JNum (Fin (of_int k)) \<and>
                     1 \<le> k \<and> k \<le> 1000)"
  shows "(\<exists>msg. checkPricing env (JArr items) w = (Inl (Error msg), w)) \<and>
         (get_prop orderData ''orderItems'' = JArr items \<longrightarrow>
            (\<exists>msg. createOrder env orderData w = (Inl (Error msg), w))) \<and>
         ((\<exists>kvs. items ! i = JObj kvs) \<and>
          (\<exists>s. get_prop (items ! i) ''sku'' = JStr s \<and> trim s \<noteq> []) \<and>
          has VALID_PRODUCT_TYPES (get_prop (items ! i) ''productType'') \<longrightarrow>
            (items_loop False 0 (take i items) = Inr () \<longrightarrow>
               checkPricing env (JArr items) w =
                 (Inl (Error (''orderItems['' @ decimal i @
                                ''].quantity must be an integer between 1 and 1000'')), w)) \<and>
            (items_loop True 0 (take i items) = Inr () \<and>
             get_prop orderData ''orderItems'' = JArr items \<and>
             (\<exists>d. get_prop orderData ''orderDatetime'' = JStr d \<and> trim d \<noteq> []) \<and>
             (\<exists>n. get_prop orderData ''sourceReferenceOrderNumber'' = JStr n \<and> trim n \<noteq> []) \<longrightarrow>
               createOrder env orderData w =
                 (Inl (Error (''orderItems['' @ decimal i @
                                ''].quantity must be an integer between 1 and 1000'')), w)))"
proof -
  have bad: "quantity_rejected (get_prop (items ! i) ''quantity'')"
    using assms(2) by (simp add: quantity_rejected_iff)
  have pricing: "\<exists>msg. checkPricing env (JArr items) w = (Inl (Error msg), w)"
    using validateOrderItems_bad_quantity[OF assms(1) bad, of False]
    by (auto simp: checkPricing_rejected)
  have order: "\<exists>msg. createOrder env orderData w = (Inl (Error msg), w)"
    if "get_prop orderData ''orderItems'' = JArr items"
  proof -
    have "validateOrderItems (get_prop orderData ''orderItems'') True \<noteq> Inr ()"
      using validateOrderItems_bad_quantity[OF assms(1) bad, of True] that by auto
    from validateCreateOrderData_bad_items[OF this] show ?thesis
      by (auto simp: createOrder_rejected)
  qed
  have message: "validateOrderItems (JArr items) rf =
      Inl (Error (''orderItems['' @ decimal i @ ''].quantity must be an integer between 1 and 1000''))"
    if "items_loop rf 0 (take i items) = Inr ()" and "items ! i = JObj kvs"
      and "get_prop (items ! i) ''sku'' = JStr s" and "trim s \<noteq> []"
      and "has VALID_PRODUCT_TYPES (get_prop (items ! i) ''productType'')"
    for rf kvs s
    using items_loop_quantity_message[OF assms(1) that(1,2) bad that(3,4,5)] .
  show ?thesis
    using pricing order message[of False] message[of True]
    by (auto simp: checkPricing_rejected createOrder_rejected
          dest!: validateCreateOrderData_quantity_message)
qed


lemma decimal_Suc_0: "decimal (Suc 0) = ''1''"
  by (simp add: decimal.simps digit_char_def)

theorem invalid_quantity_rejected_locally_witness:
  "checkPricing (mock_platform (Throws ''fetch should not be called''))
     (JArr [JObj [(''sku'', JStr ''TAB_2D_16P''), (''productType'', JStr ''Newsletter''),
                  (''quantity'', JNum (Fin 100)),
                  (''files'', JArr [JStr ''https://example.com/newsletter.pdf''])],
            JObj [(''sku'', JStr ''TAB_1D''), (''productType'', JStr ''Calendar''),
                  (''quantity'', JNum (Fin (7 / 2))),
                  (''files'', JArr [JStr ''https://example.com/calendar.pdf''])]])
     (fresh test_client) =
     (Inl (Error ''orderItems[1].quantity must be an integer between 1 and 1000''),
      fresh test_client) \<and>
   createOrder (mock_platform (Throws ''fetch should not be called''))
     (realOrderPayload [(''orderItems'',
        JArr [JObj [(''sku'', JStr ''TAB_2D_16P''), (''productType'', JStr ''Newsletter''),
                    (''quantity'', JNum (Fin 100)),
                    (''files'', JArr [JStr ''https://example.com/newsletter.pdf''])],
              JObj [(''sku'', JStr ''TAB_1D''), (''productType'', JStr ''Calendar''),
                    (''quantity'', JNum (Fin (7 / 2))),
                    (''files'', JArr [JStr ''https://example.com/calendar.pdf''])]])])
     (fresh test_client) =
     (Inl (Error ''orderItems[1].quantity must be an integer between 1 and 1000''),
      fresh test_client)"
proof -
  let ?items = "[JObj [(''sku'', JStr ''TAB_2D_16P''), (''productType'', JStr ''Newsletter''),
                       (''quantity'', JNum (Fin 100)),
                       (''files'', JArr [JStr ''https://example.com/newsletter.pdf''])],
                 JObj [(''sku'', JStr ''TAB_1D''), (''productType'', JStr ''Calendar''),
                       (''quantity'', JNum (Fin (7 / 2))),
                       (''files'', JArr [JStr ''https://example.com/calendar.pdf''])]]"
  let ?od = "realOrderPayload [(''orderItems'', JArr ?items)]"
  let ?env = "mock_platform (Throws ''fetch should not be called'')"
  have index: "Suc 0 < length ?items"
    by simp
  have "quantity_rejected (get_prop (?items ! Suc 0) ''quantity'')"
    by code_simp
  then have quantity: "\<not> (\<exists>k::int. get_prop (?items ! Suc 0) ''quantity'' = JNum (Fin (of_int k)) \<and>
                               1 \<le> k \<and> k \<le> 1000)"
    by (rule iffD1[OF quantity_rejected_iff])
  have object: "\<exists>kvs. ?items ! Suc 0 = JObj kvs"
    by simp
  have sku: "\<exists>s. get_prop (?items ! Suc 0) ''sku'' = JStr s \<and> trim s \<noteq> []"
    by (simp add: get_prop_def trim_def is_space_def)
  have type: "has VALID_PRODUCT_TYPES (get_prop (?items ! Suc 0) ''productType'')"
    by code_simp
  have before: "items_loop False 0 (take (Suc 0) ?items) = Inr ()"
    "items_loop True 0 (take (Suc 0) ?items) = Inr ()"
    by code_simp+
  have items: "get_prop ?od ''orderItems'' = JArr ?items"
    by code_simp
  have date: "\<exists>d. get_prop ?od ''orderDatetime'' = JStr d \<and> trim d \<noteq> []"
    by (simp add: realOrderPayload_def get_prop_def trim_def is_space_def)
  have number: "\<exists>n. get_prop ?od ''sourceReferenceOrderNumber'' = JStr n \<and> trim n \<noteq> []"
    by (simp add: realOrderPayload_def get_prop_def trim_def is_space_def)
  note main = invalid_quantity_rejected_locally[OF index quantity, of ?env "fresh test_client" ?od]
  from main have "(\<exists>kvs. ?items ! Suc 0 = JObj kvs) \<and>
      (\<exists>s. get_prop (?items ! Suc 0) ''sku'' = JStr s \<and> trim s \<noteq> []) \<and>
      has VALID_PRODUCT_TYPES (get_prop (?items ! Suc 0) ''productType'') \<longrightarrow>
      (items_loop False 0 (take (Suc 0) ?items) = Inr () \<longrightarrow>
         checkPricing ?env (JArr ?items) (fresh test_client) =
           (Inl (Error (''orderItems['' @ decimal (Suc 0) @
                          ''].quantity must be an integer between 1 and 1000'')),
            fresh test_client)) \<and>
      (items_loop True 0 (take (Suc 0) ?items) = Inr () \<and>
       get_prop ?od ''orderItems'' = JArr ?items \<and>
       (\<exists>d. get_prop ?od ''orderDatetime'' = JStr d \<and> trim d \<noteq> []) \<and>
       (\<exists>n. get_prop ?od ''sourceReferenceOrderNumber'' = JStr n \<and> trim n \<noteq> []) \<longrightarrow>
         createOrder ?env ?od (fresh test_client) =
           (Inl (Error (''orderItems['' @ decimal (Suc 0) @
                          ''].quantity must be an integer between 1 and 1000'')),
            fresh test_client))"
    by (rule conjunct2[OF conjunct2])
  from mp[OF this conjI[OF object conjI[OF sku type]]]
  have "checkPricing ?env (JArr ?items) (fresh test_client) =
           (Inl (Error (''orderItems['' @ decimal (Suc 0) @
                          ''].quantity must be an integer between 1 and 1000'')),
            fresh test_client)"
    and "createOrder ?env ?od (fresh test_client) =
           (Inl (Error (''orderItems['' @ decimal (Suc 0) @
                          ''].quantity must be an integer between 1 and 1000'')),
            fresh test_client)"
    using before items date number by blast+
  then show ?thesis
    by (simp only: decimal_Suc_0 append.simps)
qed

text \<open>
  C6. An item with sku \<open>LFP_CS\<close> whose long edge is \<open>NaN\<close> passes validation, and the
  pricing request for it is made, although \<open>NaN\<close> is not a positive number.
\<close>

theorem LFP_CS_NaN_edge_accepted:
  "validateOrderItems
     (JArr [JObj [(''sku'', JStr ''LFP_CS''), (''productType'', JStr ''LFP''),
                  (''quantity'', JNum (Fin 1)), (''longEdge'', JNum NaN),
                  (''shortEdge'', JNum (Fin 24))]]) False = Inr () \<and>
   fst (checkPricing (mock_platform (Responds (mockResponse (JObj []) 200 True)))
          (JArr [JObj [(''sku'', JStr ''LFP_CS''), (''productType'', JStr ''LFP''),
                       (''quantity'', JNum (Fin 1)), (''longEdge'', JNum NaN),
                       (''shortEdge'', JNum (Fin 24))]])
          (fresh test_client)) = Inr (JObj [])"
  by code_simp

text \<open>The check of a dimension lets through exactly the numbers that are positive,
  and \<open>NaN\<close>.\<close>

lemma edge_rejected_iff:
  "edge_rejected v \<longleftrightarrow>
     \<not> (v = JNum NaN \<or> v = JNum PosInf \<or> (\<exists>q. v = JNum (Fin q) \<and> 0 < q))"
proof (cases v)
  case (JNum x)
  then show ?thesis
    by (cases x) (auto simp: edge_rejected_def num_le_def)
qed (simp_all add: edge_rejected_def)

lemma validateItem_bad_edge:
  assumes "get_prop item ''sku'' = JStr ''LFP_CS''"
    and "edge_rejected (get_prop item ''longEdge'') \<or> edge_rejected (get_prop item ''shortEdge'')"
  shows "validateItem rf i item \<noteq> Inr ()"
  using assms by (auto simp: validateItem_def Let_def first_error_Cons_Inr)

lemma items_loop_bad_item:
  "i < length items \<Longrightarrow> (\<And>j. validateItem rf j (items ! i) \<noteq> Inr ()) \<Longrightarrow>
     items_loop rf n items \<noteq> Inr ()"
proof (induction items arbitrary: i n)
  case Nil
  then show ?case by simp
next
  case (Cons x xs)
  show ?case
  proof (cases i)
    case 0
    with Cons.prems(2)[of n] show ?thesis
      by (cases "validateItem rf n x") auto
  next
    case (Suc m)
    with Cons.prems Cons.IH[of m "Suc n"] show ?thesis
      by (cases "validateItem rf n x") auto
  qed
qed

text \<open>Apart from \<open>NaN\<close>, an item with sku \<open>LFP_CS\<close> is rejected whenever one of
  its dimensions is absent or is not a positive number.\<close>

lemma LFP_CS_dimensions_required:
  assumes "i < length items" and "get_prop (items ! i) ''sku'' = JStr ''LFP_CS''"
    and "\<not> (\<exists>x. get_prop (items ! i) ''longEdge'' = JNum x \<and>
                (x = NaN \<or> x = PosInf \<or> (\<exists>q. x = Fin q \<and> 0 < q))) \<or>
         \<not> (\<exists>x. get_prop (items ! i) ''shortEdge'' = JNum x \<and>
                (x = NaN \<or> x = PosInf \<or> (\<exists>q. x = Fin q \<and> 0 < q)))"
  shows "\<exists>msg. validateOrderItems (JArr items) rf = Inl (Error msg)"
proof -
  have "edge_rejected (get_prop (items ! i) ''longEdge'') \<or>
        edge_rejected (get_prop (items ! i) ''shortEdge'')"
    using assms(3) unfolding edge_rejected_iff by auto
  then have "validateItem rf j (items ! i) \<noteq> Inr ()" for j
    using validateItem_bad_edge[OF assms(2)] by simp
  then have "validateOrderItems (JArr items) rf \<noteq> Inr ()"
    using items_loop_bad_item[OF assms(1), of rf 0] by (simp add: validateOrderItems_def)
  then show ?thesis
    using local_onlyD[OF local_only_validateOrderItems, of "JArr items" rf]
    by (cases "validateOrderItems (JArr items) rf") auto
qed

section \<open>Facts about letter case and the table of states\<close>

lemma upper_table:
  "list_all (\<lambda>p. upper_char (fst p) = snd p \<and> upper_char (snd p) = snd p)
     (zip ''abcdefghijklmnopqrstuvwxyz'' ''ABCDEFGHIJKLMNOPQRSTUVWXYZ'')"
  by code_simp

lemma upper_of_lower:
  "(x, y) \<in> set (zip ''abcdefghijklmnopqrstuvwxyz'' ''ABCDEFGHIJKLMNOPQRSTUVWXYZ'') \<Longrightarrow>
     upper_char x = y \<and> upper_char y = y"
  using upper_table unfolding list_all_iff by fastforce

lemma upper_same_letter: "same_letter x y \<Longrightarrow> upper_char x = upper_char y"
  unfolding same_letter_def using upper_of_lower[of x y] upper_of_lower[of y x] by metis

lemma upper_equal_ignoring_case:
  "equal_ignoring_case s t \<Longrightarrow> toUpperCase s = toUpperCase t"
  unfolding equal_ignoring_case_def toUpperCase_def
  by (induction rule: list_all2_induct) (simp_all add: upper_same_letter)

lemma codes_are_upper_case:
  "list_all (\<lambda>s. toUpperCase s = s) us_states" "toUpperCase ''DC'' = ''DC''"
  by code_simp+

lemma contiguous_in_VALID_STATES: "list_all (\<lambda>s. s \<in> set VALID_STATES) contiguous_states_and_DC"
  by code_simp

lemma VALID_STATES_in_contiguous: "list_all (\<lambda>s. s \<in> set contiguous_states_and_DC) VALID_STATES"
  by code_simp

lemma VALID_STATES_are_contiguous: "set VALID_STATES = set contiguous_states_and_DC"
  using contiguous_in_VALID_STATES VALID_STATES_in_contiguous by (auto simp: list_all_iff)

lemma VALID_STATES_count: "distinct VALID_STATES \<and> length VALID_STATES = 49"
  by code_simp

lemma AK_HI_excluded: "''AK'' \<notin> set VALID_STATES" "''HI'' \<notin> set VALID_STATES"
  by code_simp+

lemma upper_of_code:
  assumes "code \<in> set contiguous_states_and_DC" and "equal_ignoring_case v code"
  shows "toUpperCase v \<in> set VALID_STATES"
proof -
  have "code \<in> set us_states \<or> code = ''DC''"
    using assms(1) by (auto simp: contiguous_states_and_DC_def)
  then have "toUpperCase code = code"
    using codes_are_upper_case by (auto simp: list_all_iff)
  then show ?thesis
    using upper_equal_ignoring_case[OF assms(2)] assms(1) VALID_STATES_are_contiguous by simp
qed

lemma first_error_avoids: "list_all (\<lambda>c. c \<noteq> Inl e) cs \<Longrightarrow> first_error cs \<noteq> Inl e"
  by (induction cs rule: first_error.induct) auto

lemma if_avoids: "(c \<Longrightarrow> a \<noteq> x) \<Longrightarrow> (\<not> c \<Longrightarrow> b \<noteq> x) \<Longrightarrow> (if c then a else b) \<noteq> x"
  by simp

lemma requireString_avoids:
  "m \<noteq> l @ '' must be a non-empty string'' \<Longrightarrow> requireString v l \<noteq> Inl (Error m)"
  by (auto simp: requireString_def split: jsval.splits)

lemma emails_loop_avoids:
  "(\<And>j. m \<noteq> field @ ''['' @ decimal j @ ''] must be a valid email address'') \<Longrightarrow>
     emails_loop field i es \<noteq> Inl (Error m)"
  by (induction field i es rule: emails_loop.induct) auto

lemma validateCustomer_not_state_message:
  assumes "isState (get_prop customer ''state'')"
  shows "validateCustomer customer label \<noteq>
           Inl (Error (label @ ''.state must be a 2-letter US state code (lower 48 + DC)''))"
  unfolding validateCustomer_def
  apply (rule if_avoids)
   apply simp
  apply (rule first_error_avoids)
  apply (intro list_all_ConsI list_all_NilI)
            apply (simp_all add: assms requireString_avoids emails_loop_avoids split: jsval.split)
  done

lemma validateCustomer_bad_state:
  assumes "\<not> isState (get_prop customer ''state'')"
  shows "\<exists>msg. validateCustomer customer label = Inl (Error msg)"
proof -
  have "validateCustomer customer label \<noteq> Inr ()"
    using assms by (simp add: validateCustomer_def first_error_Cons_Inr)
  then show ?thesis
    using local_onlyD[OF local_only_validateCustomer, of customer label]
    by (cases "validateCustomer customer label") auto
qed


section \<open>State codes\<close>

text \<open>
  C7. The state of a customer is a string. If it equals \<open>AK\<close> or \<open>HI\<close> up to letter
  case, the state check fails and customer validation throws. If it equals, up to
  letter case, one of the codes of the 48 contiguous states or \<open>DC\<close>, the state check
  passes: whatever customer validation throws, it is not the message about the state.
\<close>

theorem state_codes_checked:
  assumes "get_prop customer ''state'' = JStr v"
  shows "(equal_ignoring_case v ''AK'' \<or> equal_ignoring_case v ''HI'' \<longrightarrow>
            \<not> isState (get_prop customer ''state'') \<and>
            (\<exists>msg. validateCustomer customer label = Inl (Error msg))) \<and>
         (\<forall>code \<in> set contiguous_states_and_DC. equal_ignoring_case v code \<longrightarrow>
            isState (get_prop customer ''state'') \<and>
            validateCustomer customer label \<noteq>
              Inl (Error (label @ ''.state must be a 2-letter US state code (lower 48 + DC)'')))"
proof (intro conjI impI ballI)
  assume "equal_ignoring_case v ''AK'' \<or> equal_ignoring_case v ''HI''"
  then have "toUpperCase v = toUpperCase ''AK'' \<or> toUpperCase v = toUpperCase ''HI''"
    using upper_equal_ignoring_case by blast
  moreover have "toUpperCase ''AK'' = ''AK''" "toUpperCase ''HI'' = ''HI''"
    by code_simp+
  ultimately have "toUpperCase v \<notin> set VALID_STATES"
    using AK_HI_excluded by auto
  then show no: "\<not> isState (get_prop customer ''state'')"
    using assms by (simp add: isState_def)
  from validateCustomer_bad_state[OF no]
  show "\<exists>msg. validateCustomer customer label = Inl (Error msg)" .
next
  fix code
  assume "code \<in> set contiguous_states_and_DC" and "equal_ignoring_case v code"
  then have "toUpperCase v \<in> set VALID_STATES"
    by (rule upper_of_code)
  then show yes: "isState (get_prop customer ''state'')"
    using assms by (simp add: isState_def)
  from validateCustomer_not_state_message[OF yes]
  show "validateCustomer customer label \<noteq>
          Inl (Error (label @ ''.state must be a 2-letter US state code (lower 48 + DC)''))" .
qed

theorem state_codes_checked_witness:
  "(\<exists>msg. validateCustomer (shippingCustomer_in ''ak'') ''shippingCustomer'' = Inl (Error msg)) \<and>
   (\<exists>msg. validateCustomer (shippingCustomer_in ''Hi'') ''shippingCustomer'' = Inl (Error msg)) \<and>
   isState (get_prop (shippingCustomer_in ''dc'') ''state'') \<and>
   validateCustomer (shippingCustomer_in ''dc'') ''shippingCustomer'' \<noteq>
     Inl (Error ''shippingCustomer.state must be a 2-letter US state code (lower 48 + DC)'') \<and>
   validateCustomer (shippingCustomer_in ''dc'') ''shippingCustomer'' = Inr ()"
proof -
  have state: "get_prop (shippingCustomer_in ''ak'') ''state'' = JStr ''ak''"
    "get_prop (shippingCustomer_in ''Hi'') ''state'' = JStr ''Hi''"
    "get_prop (shippingCustomer_in ''dc'') ''state'' = JStr ''dc''"
    by code_simp+
  have same: "equal_ignoring_case ''ak'' ''AK''" "equal_ignoring_case ''Hi'' ''HI''"
    "equal_ignoring_case ''dc'' ''DC''"
    by code_simp+
  have listed: "''DC'' \<in> set contiguous_states_and_DC"
    by code_simp
  have passes: "validateCustomer (shippingCustomer_in ''dc'') ''shippingCustomer'' = Inr ()"
    by code_simp
  from state_codes_checked[OF state(1), of "''shippingCustomer''"] same(1)
  have alaska: "\<exists>msg. validateCustomer (shippingCustomer_in ''ak'') ''shippingCustomer'' =
                      Inl (Error msg)"
    by blast
  from state_codes_checked[OF state(2), of "''shippingCustomer''"] same(2)
  have hawaii: "\<exists>msg. validateCustomer (shippingCustomer_in ''Hi'') ''shippingCustomer'' =
                      Inl (Error msg)"
    by blast
  from state_codes_checked[OF state(3), of "''shippingCustomer''"] same(3) listed
  have "isState (get_prop (shippingCustomer_in ''dc'') ''state'') \<and>
        validateCustomer (shippingCustomer_in ''dc'') ''shippingCustomer'' \<noteq>
          Inl (Error (''shippingCustomer'' @
                 ''.state must be a 2-letter US state code (lower 48 + DC)''))"
    by blast
  with alaska hawaii passes show ?thesis
    by (simp only: append.simps) simp
qed

section \<open>The configuration is read, never written\<close>

lemma guarded_cases:
  assumes "local_only v" and "P meth path query payload"
  shows "(\<exists>msg. (case v of Inl e \<Rightarrow> (Inl e, w) | Inr u \<Rightarrow> request env meth path query payload w)
            = (Inl (Error msg), w)) \<or>
         (\<exists>meth' path' query' payload'.
            (case v of Inl e \<Rightarrow> (Inl e, w) | Inr u \<Rightarrow> request env meth path query payload w)
            = request env meth' path' query' payload' w \<and> P meth' path' query' payload')"
proof (cases v)
  case (Inl e)
  with local_onlyD[OF assms(1)] show ?thesis by auto
next
  case (Inr u)
  with assms(2) show ?thesis by auto
qed

lemma drop_base: "drop (length b) (b @ p) = p" "take (length b) (b @ p) = b"
  by simp_all

lemma uses_catalog:
  "uses_configuration c (build_request c ''GET'' ''/catalog'' [] JUndefined)"
  by (simp add: uses_configuration_def build_request_def Let_def truthy_def)

lemma uses_pricing:
  "uses_configuration c (build_request c ''POST'' ''/pricing'' []
      (JObj [(''accountId'', JStr (accountId c)), (''orderItems'', x)]))"
  by (simp add: uses_configuration_def build_request_def Let_def truthy_def get_prop_def)

lemma uses_order:
  "uses_configuration c (build_request c ''POST'' ''/order'' [] (order_body c x))"
  using order_body_truthy[of c x] order_body_accountId[of c x]
  by (simp add: uses_configuration_def build_request_def Let_def)
     (simp add: order_body_def Let_def get_prop_set_prop_same)

lemma uses_orderstatus:
  assumes "search_params (JObj [(''accountId'', JStr (accountId c)), (''orderNumber'', x)])
             = Some params"
  shows "uses_configuration c (build_request c ''GET'' ''/orderstatus'' params JUndefined)"
proof -
  have "map_of params ''accountId'' = Some (Str (accountId c))"
    using assms
    by (auto simp: search_params_def truthy_def Object_entries_def String_of_def converted_def
          split: if_splits option.splits)
  then show ?thesis
    by (simp add: uses_configuration_def build_request_def Let_def truthy_def)
qed

lemma uses_cancelorder:
  "uses_configuration c (build_request c ''POST'' ''/cancelorder'' []
      (JObj [(''accountId'', JStr (accountId c)), (''orderNumber'', x)]))"
  by (simp add: uses_configuration_def build_request_def Let_def truthy_def get_prop_def)

lemma perform_cases:
  "(\<exists>msg. perform env operation w = (Inl (Error msg), w)) \<or>
   (\<exists>meth path query payload.
      perform env operation w = request env meth path query payload w \<and>
      (\<forall>params. search_params query = Some params \<longrightarrow>
         uses_configuration (this w) (build_request (this w) meth path params payload)))"
proof (cases operation)
  case GetCatalog
  have "request env ''GET'' ''/catalog'' JUndefined JUndefined w =
          request env ''GET'' ''/catalog'' JUndefined JUndefined w \<and>
        (\<forall>params. search_params JUndefined = Some params \<longrightarrow>
           uses_configuration (this w)
             (build_request (this w) ''GET'' ''/catalog'' params JUndefined))"
    using uses_catalog[of "this w"] by simp
  then show ?thesis
    unfolding GetCatalog perform.simps getCatalog_def by blast
next
  case (CheckPricing x)
  show ?thesis
    unfolding CheckPricing perform.simps checkPricing_def
    by (rule guarded_cases
          [where P = "\<lambda>m p q b. \<forall>params. search_params q = Some params \<longrightarrow>
                   uses_configuration (this w) (build_request (this w) m p params b)"])
       (simp_all add: uses_pricing)
next
  case (CreateOrder x)
  show ?thesis
    unfolding CreateOrder perform.simps createOrder_def
    by (rule guarded_cases
          [where P = "\<lambda>m p q b. \<forall>params. search_params q = Some params \<longrightarrow>
                   uses_configuration (this w) (build_request (this w) m p params b)"])
       (simp_all add: uses_order)
next
  case (GetOrderStatus x)
  show ?thesis
    unfolding GetOrderStatus perform.simps getOrderStatus_def
    by (rule guarded_cases
          [where P = "\<lambda>m p q b. \<forall>params. search_params q = Some params \<longrightarrow>
                   uses_configuration (this w) (build_request (this w) m p params b)"])
       (simp_all add: uses_orderstatus)
next
  case (CancelOrder x)
  show ?thesis
    unfolding CancelOrder perform.simps cancelOrder_def
    by (rule guarded_cases
          [where P = "\<lambda>m p q b. \<forall>params. search_params q = Some params \<longrightarrow>
                   uses_configuration (this w) (build_request (this w) m p params b)"])
       (simp_all add: uses_cancelorder)
qed

lemma perform_frame:
  "this (snd (perform env operation w)) = this w \<and>
   (\<exists>new. calls (snd (perform env operation w)) = calls w @ new \<and>
          list_all (uses_configuration (this w)) new)"
proof -
  from perform_cases[of env operation w] show ?thesis
  proof
    assume "\<exists>msg. perform env operation w = (Inl (Error msg), w)"
    then show ?thesis by auto
  next
    assume "\<exists>meth path query payload.
      perform env operation w = request env meth path query payload w \<and>
      (\<forall>params. search_params query = Some params \<longrightarrow>
         uses_configuration (this w) (build_request (this w) meth path params payload))"
    then obtain meth path query payload
      where rq: "perform env operation w = request env meth path query payload w"
        and u: "\<And>params. search_params query = Some params \<Longrightarrow>
                  uses_configuration (this w) (build_request (this w) meth path params payload)"
      by blast
    show ?thesis
    proof (cases "url_parses env (baseUrl (this w) @ path)")
      case True
      show ?thesis
      proof (cases "search_params query")
        case None
        with True show ?thesis by (simp add: rq request_this request_calls)
      next
        case (Some params)
        with True u[OF Some] show ?thesis by (simp add: rq request_this request_calls)
      qed
    next
      case False
      then show ?thesis by (simp add: rq request_this request_calls)
    qed
  qed
qed

text \<open>
  C8. The operations are run one after another on a client. None of them changes the
  client: after the whole sequence its credential, account identifier, base address and
  test-mode flag are what they were before. Every request made along the way uses these
  values: it carries the credential, goes to an address under the base address, names
  the account wherever the operation sends one, and marks an order as a test when the
  test mode is on.
\<close>

theorem configuration_never_mutated:
  "this (snd (perform_all env operations w)) = this w \<and>
   (\<exists>new. calls (snd (perform_all env operations w)) = calls w @ new \<and>
          list_all (uses_configuration (this w)) new)"
proof (induction operations arbitrary: w)
  case Nil
  show ?case by simp
next
  case (Cons x xs)
  obtain r w1 where first: "perform env x w = (r, w1)"
    by fastforce
  obtain rs w2 where rest: "perform_all env xs w1 = (rs, w2)"
    by fastforce
  from perform_frame[of env x w] first
  obtain new1 where one: "this w1 = this w" "calls w1 = calls w @ new1"
    "list_all (uses_configuration (this w)) new1"
    by auto
  from Cons.IH[of w1] rest one(1)
  obtain new2 where two: "this w2 = this w" "calls w2 = calls w1 @ new2"
    "list_all (uses_configuration (this w)) new2"
    by auto
  have "calls w2 = calls w @ (new1 @ new2)"
    using one(2) two(2) by simp
  moreover have "list_all (uses_configuration (this w)) (new1 @ new2)"
    using one(3) two(3) by simp
  ultimately show ?case
    using two(1) first rest by (simp del: append_assoc)
qed


theorem configuration_never_mutated_witness:
  "this (snd (perform_all (mock_platform (Responds (mockResponse (JObj []) 200 True)))
                [GetCatalog, GetOrderStatus (JStr ''ATEST-0000001''),
                 CancelOrder (JStr ''ATEST-0000001'')]
                (fresh test_client))) = test_client \<and>
   length (calls (snd (perform_all (mock_platform (Responds (mockResponse (JObj []) 200 True)))
                [GetCatalog, GetOrderStatus (JStr ''ATEST-0000001''),
                 CancelOrder (JStr ''ATEST-0000001'')]
                (fresh test_client)))) = 3 \<and>
   list_all (uses_configuration test_client)
     (calls (snd (perform_all (mock_platform (Responds (mockResponse (JObj []) 200 True)))
                [GetCatalog, GetOrderStatus (JStr ''ATEST-0000001''),
                 CancelOrder (JStr ''ATEST-0000001'')]
                (fresh test_client))))"
proof -
  let ?run = "perform_all (mock_platform (Responds (mockResponse (JObj []) 200 True)))
                [GetCatalog, GetOrderStatus (JStr ''ATEST-0000001''),
                 CancelOrder (JStr ''ATEST-0000001'')]
                (fresh test_client)"
  have three: "length (calls (snd ?run)) = 3"
    by code_simp
  from configuration_never_mutated[of "mock_platform (Responds (mockResponse (JObj []) 200 True))"
         "[GetCatalog, GetOrderStatus (JStr ''ATEST-0000001''),
           CancelOrder (JStr ''ATEST-0000001'')]" "fresh test_client"]
  have "this (snd ?run) = test_client \<and> list_all (uses_configuration test_client) (calls (snd ?run))"
    by (auto simp: fresh_def)
  with three show ?thesis by simp
qed

section \<open>Items that agree on the fields a check reads\<close>

lemma get_prop_filtered:
  "Q k \<Longrightarrow> get_prop (JObj (filter (\<lambda>p. Q (fst p)) kvs)) k = get_prop (JObj kvs) k"
  by (simp add: get_prop_def map_of_filter_key)

lemma without_dimensions_agree:
  assumes "without_dimensions a = without_dimensions b"
  shows "a = b \<or>
         (\<exists>ka kb. a = JObj ka \<and> b = JObj kb \<and>
            (\<forall>k. k \<noteq> ''longEdge'' \<and> k \<noteq> ''shortEdge'' \<longrightarrow> get_prop a k = get_prop b k))"
proof (cases a)
  case (JObj ka)
  then obtain kb where b: "b = JObj kb"
    using assms by (cases b) (simp_all add: without_dimensions_def)
  have "get_prop a k = get_prop b k" if "k \<noteq> ''longEdge'' \<and> k \<noteq> ''shortEdge''" for k
  proof -
    have "get_prop (without_dimensions a) k = get_prop a k"
      "get_prop (without_dimensions b) k = get_prop b k"
      using that JObj b
        get_prop_filtered[of "\<lambda>k. k \<noteq> ''longEdge'' \<and> k \<noteq> ''shortEdge''" k]
      by (simp_all add: without_dimensions_def)
    with assms show ?thesis by simp
  qed
  with JObj b show ?thesis by blast
qed (use assms in \<open>cases b; simp add: without_dimensions_def\<close>)+

lemma without_files_agree:
  assumes "without_files a = without_files b"
  shows "a = b \<or>
         (\<exists>ka kb. a = JObj ka \<and> b = JObj kb \<and>
            (\<forall>k. k \<noteq> ''files'' \<longrightarrow> get_prop a k = get_prop b k))"
proof (cases a)
  case (JObj ka)
  then obtain kb where b: "b = JObj kb"
    using assms by (cases b) (simp_all add: without_files_def)
  have "get_prop a k = get_prop b k" if "k \<noteq> ''files''" for k
  proof -
    have "get_prop (without_files a) k = get_prop a k"
      "get_prop (without_files b) k = get_prop b k"
      using that JObj b get_prop_filtered[of "\<lambda>k. k \<noteq> ''files''" k]
      by (simp_all add: without_files_def)
    with assms show ?thesis by simp
  qed
  with JObj b show ?thesis by blast
qed (use assms in \<open>cases b; simp add: without_files_def\<close>)+

lemma validateItem_ignores_dimensions:
  assumes "without_dimensions a = without_dimensions b"
    and "get_prop a ''sku'' \<noteq> JStr ''LFP_CS''"
  shows "validateItem rf i a = validateItem rf i b"
proof -
  from without_dimensions_agree[OF assms(1)] show ?thesis
  proof
    assume "a = b"
    then show ?thesis by simp
  next
    assume "\<exists>ka kb. a = JObj ka \<and> b = JObj kb \<and>
            (\<forall>k. k \<noteq> ''longEdge'' \<and> k \<noteq> ''shortEdge'' \<longrightarrow> get_prop a k = get_prop b k)"
    then obtain ka kb where ab: "a = JObj ka" "b = JObj kb"
      and same: "\<And>k. k \<noteq> ''longEdge'' \<and> k \<noteq> ''shortEdge'' \<Longrightarrow> get_prop a k = get_prop b k"
      by blast
    have props: "get_prop b ''sku'' = get_prop a ''sku''"
      "get_prop b ''productType'' = get_prop a ''productType''"
      "get_prop b ''quantity'' = get_prop a ''quantity''"
      "get_prop b ''files'' = get_prop a ''files''"
      using same[of "''sku''"] same[of "''productType''"] same[of "''quantity''"]
        same[of "''files''"] by simp_all
    have shape: "truthy b = truthy a" "typeof b = typeof a" "isArray b = isArray a"
      by (simp_all add: ab truthy_def typeof_def isArray_def)
    show ?thesis
      unfolding validateItem_def Let_def props shape using assms(2) by simp
  qed
qed

lemma validateItem_ignores_files:
  assumes "without_files a = without_files b"
  shows "validateItem False i a = validateItem False i b"
proof -
  from without_files_agree[OF assms(1)] show ?thesis
  proof
    assume "a = b"
    then show ?thesis by simp
  next
    assume "\<exists>ka kb. a = JObj ka \<and> b = JObj kb \<and>
            (\<forall>k. k \<noteq> ''files'' \<longrightarrow> get_prop a k = get_prop b k)"
    then obtain ka kb where ab: "a = JObj ka" "b = JObj kb"
      and same: "\<And>k. k \<noteq> ''files'' \<Longrightarrow> get_prop a k = get_prop b k"
      by blast
    have props: "get_prop b ''sku'' = get_prop a ''sku''"
      "get_prop b ''productType'' = get_prop a ''productType''"
      "get_prop b ''quantity'' = get_prop a ''quantity''"
      "get_prop b ''longEdge'' = get_prop a ''longEdge''"
      "get_prop b ''shortEdge'' = get_prop a ''shortEdge''"
      using same[of "''sku''"] same[of "''productType''"] same[of "''quantity''"]
        same[of "''longEdge''"] same[of "''shortEdge''"] by simp_all
    have shape: "truthy b = truthy a" "typeof b = typeof a" "isArray b = isArray a"
      by (simp_all add: ab truthy_def typeof_def isArray_def)
    show ?thesis
      unfolding validateItem_def Let_def props shape by simp
  qed
qed

lemma items_loop_cong:
  "list_all2 (\<lambda>a b. \<forall>i. validateItem rf i a = validateItem rf i b) items items' \<Longrightarrow>
     items_loop rf j items = items_loop rf j items'"
proof (induction items items' arbitrary: j rule: list_all2_induct)
  case Nil
  show ?case by simp
next
  case (Cons a as b bs)
  then show ?case by (simp split: sum.splits)
qed

lemma validateOrderItems_cong:
  assumes "list_all2 (\<lambda>a b. \<forall>i. validateItem rf i a = validateItem rf i b) items items'"
  shows "validateOrderItems (JArr items) rf = validateOrderItems (JArr items') rf"
proof -
  have "items = [] \<longleftrightarrow> items' = []"
    using assms by (auto simp: list_all2_Nil list_all2_Nil2)
  then show ?thesis
    using items_loop_cong[OF assms, of 0] by (simp add: validateOrderItems_def)
qed


section \<open>What the validation of items does not look at\<close>

text \<open>
  C9. Two sequences of items differ at most in the \<open>longEdge\<close> and \<open>shortEdge\<close> fields
  of items whose sku is not exactly \<open>LFP_CS\<close>. Then validation gives the same result on
  both, with and without the file requirement: dimensions that are missing, added or
  changed on such an item never decide the outcome.
\<close>

theorem dimensions_checked_only_for_LFP_CS:
  assumes "list_all2 (\<lambda>a b. without_dimensions a = without_dimensions b \<and>
                            (a = b \<or> get_prop a ''sku'' \<noteq> JStr ''LFP_CS'')) items items'"
  shows "validateOrderItems (JArr items) rf = validateOrderItems (JArr items') rf"
proof (rule validateOrderItems_cong)
  show "list_all2 (\<lambda>a b. \<forall>i. validateItem rf i a = validateItem rf i b) items items'"
    using assms
  proof (rule list_all2_mono)
    fix a b
    assume "without_dimensions a = without_dimensions b \<and>
            (a = b \<or> get_prop a ''sku'' \<noteq> JStr ''LFP_CS'')"
    then show "\<forall>i. validateItem rf i a = validateItem rf i b"
      using validateItem_ignores_dimensions[of a b rf] by auto
  qed
qed

theorem dimensions_checked_only_for_LFP_CS_witness:
  "validateOrderItems
     (JArr [JObj [(''sku'', JStr ''lfp_cs''), (''productType'', JStr ''LFP''),
                  (''quantity'', JNum (Fin 2))],
            JObj [(''sku'', JStr ''LFP_36x24''), (''productType'', JStr ''LFP''),
                  (''quantity'', JNum (Fin 5)), (''longEdge'', JStr ''wide'')]]) False = Inr ()"
proof -
  let ?given = "[JObj [(''sku'', JStr ''lfp_cs''), (''productType'', JStr ''LFP''),
                       (''quantity'', JNum (Fin 2)), (''longEdge'', JNum (Fin 48)),
                       (''shortEdge'', JNum (Fin 36))],
                 JObj [(''sku'', JStr ''LFP_36x24''), (''productType'', JStr ''LFP''),
                       (''quantity'', JNum (Fin 5))]]"
  let ?other = "[JObj [(''sku'', JStr ''lfp_cs''), (''productType'', JStr ''LFP''),
                       (''quantity'', JNum (Fin 2))],
                 JObj [(''sku'', JStr ''LFP_36x24''), (''productType'', JStr ''LFP''),
                       (''quantity'', JNum (Fin 5)), (''longEdge'', JStr ''wide'')]]"
  have related: "list_all2 (\<lambda>a b. without_dimensions a = without_dimensions b \<and>
                                  (a = b \<or> get_prop a ''sku'' \<noteq> JStr ''LFP_CS'')) ?given ?other"
    by (simp add: without_dimensions_def get_prop_def)
  have "validateOrderItems (JArr ?given) False = Inr ()"
    by code_simp
  with dimensions_checked_only_for_LFP_CS[OF related, of False] show ?thesis
    by simp
qed

text \<open>
  C10. Two sequences of items differ at most in their \<open>files\<close> fields. Then validation
  without the file requirement, which is what \<open>checkPricing\<close> runs, gives the same result
  on both. If that result is a pass and the pricing address parses, \<open>checkPricing\<close>
  makes one POST request whose body holds the account identifier and the items exactly
  as the caller gave them, files included.
\<close>

theorem checkPricing_ignores_files:
  assumes "list_all2 (\<lambda>a b. without_files a = without_files b) items items'"
  shows "validateOrderItems (JArr items) False = validateOrderItems (JArr items') False \<and>
         (validateOrderItems (JArr items') False = Inr () \<and>
          url_parses env (baseUrl (this w) @ ''/pricing'') \<longrightarrow>
            (\<exists>r req. checkPricing env (JArr items) w = (r, w\<lparr>calls := calls w @ [req]\<rparr>) \<and>
               http_method req = ''POST'' \<and>
               href (target req) = baseUrl (this w) @ ''/pricing'' \<and>
               body req = Some (JObj [(''accountId'', JStr (accountId (this w))),
                                      (''orderItems'', JArr items)])))"
proof -
  have same: "validateOrderItems (JArr items) False = validateOrderItems (JArr items') False"
  proof (rule validateOrderItems_cong)
    show "list_all2 (\<lambda>a b. \<forall>i. validateItem False i a = validateItem False i b) items items'"
      using assms
    proof (rule list_all2_mono)
      fix a b
      assume "without_files a = without_files b"
      then show "\<forall>i. validateItem False i a = validateItem False i b"
        using validateItem_ignores_files[of a b] by auto
    qed
  qed
  have sent: "\<exists>r req. checkPricing env (JArr items) w = (r, w\<lparr>calls := calls w @ [req]\<rparr>) \<and>
               http_method req = ''POST'' \<and>
               href (target req) = baseUrl (this w) @ ''/pricing'' \<and>
               body req = Some (JObj [(''accountId'', JStr (accountId (this w))),
                                      (''orderItems'', JArr items)])"
    if "validateOrderItems (JArr items) False = Inr ()"
      and "url_parses env (baseUrl (this w) @ ''/pricing'')"
  proof -
    let ?req = "build_request (this w) ''POST'' ''/pricing'' []
                  (JObj [(''accountId'', JStr (accountId (this w))), (''orderItems'', JArr items)])"
    have "checkPricing env (JArr items) w =
            (classify (fetch env (calls w) ?req), w\<lparr>calls := calls w @ [?req]\<rparr>)"
      using that by (simp add: checkPricing_def request_def Let_def)
    moreover have "http_method ?req = ''POST'' \<and>
        href (target ?req) = baseUrl (this w) @ ''/pricing'' \<and>
        body ?req = Some (JObj [(''accountId'', JStr (accountId (this w))),
                                (''orderItems'', JArr items)])"
      by (simp add: build_request_fields truthy_def)
    ultimately show ?thesis by blast
  qed
  from same sent show ?thesis by simp
qed

theorem checkPricing_ignores_files_witness:
  "\<exists>r req.
     checkPricing (mock_platform (Responds (mockResponse (JObj []) 200 True)))
       (JArr [JObj [(''sku'', JStr ''TAB_2D_16P''), (''productType'', JStr ''Newsletter''),
                    (''quantity'', JNum (Fin 100)),
                    (''files'', JArr [JStr ''http://example.com/plain.pdf'', JNum (Fin 42)])]])
       (fresh test_client) =
       (r, (fresh test_client)\<lparr>calls := calls (fresh test_client) @ [req]\<rparr>) \<and>
     body req =
       Some (JObj [(''accountId'', JStr ''123''),
                   (''orderItems'',
                    JArr [JObj [(''sku'', JStr ''TAB_2D_16P''),
                                (''productType'', JStr ''Newsletter''),
                                (''quantity'', JNum (Fin 100)),
                                (''files'', JArr [JStr ''http://example.com/plain.pdf'',
                                                  JNum (Fin 42)])]])])"
proof -
  let ?env = "mock_platform (Responds (mockResponse (JObj []) 200 True))"
  let ?given = "[JObj [(''sku'', JStr ''TAB_2D_16P''), (''productType'', JStr ''Newsletter''),
                       (''quantity'', JNum (Fin 100)),
                       (''files'', JArr [JStr ''http://example.com/plain.pdf'', JNum (Fin 42)])]]"
  let ?bare = "[JObj [(''sku'', JStr ''TAB_2D_16P''), (''productType'', JStr ''Newsletter''),
                      (''quantity'', JNum (Fin 100))]]"
  have related: "list_all2 (\<lambda>a b. without_files a = without_files b) ?given ?bare"
    by (simp add: without_files_def)
  have valid: "validateOrderItems (JArr ?bare) False = Inr ()"
    by code_simp
  have parses: "url_parses ?env (baseUrl (this (fresh test_client)) @ ''/pricing'')"
    by (simp add: mock_platform_def)
  have account: "accountId (this (fresh test_client)) = ''123''"
    by (simp add: fresh_def test_client_def)
  from checkPricing_ignores_files[OF related, of ?env "fresh test_client"] valid parses
  have "\<exists>r req. checkPricing ?env (JArr ?given) (fresh test_client) =
                   (r, (fresh test_client)\<lparr>calls := calls (fresh test_client) @ [req]\<rparr>) \<and>
                 body req = Some (JObj [(''accountId'', JStr (accountId (this (fresh test_client)))),
                                        (''orderItems'', JArr ?given)])"
    by blast
  then show ?thesis
    by (simp only: account)
qed

end
